theory Spec2Isabelle
  imports Main
begin

text \<open>
  A shallow embedding of the import controller of rancher-turtles
  (\<^verbatim>\<open>internal/controllers/import_controller.go\<close>) and of its name converter
  (\<^verbatim>\<open>util/naming/name_converter.go\<close>), with the properties the specification
  states about them.
\<close>

section \<open>Name conversion (util/naming/name_converter.go)\<close>

text \<open>
  Go strings are byte sequences; \<open>string\<close> is a list of bytes too.
  \<^verbatim>\<open>strings.HasSuffix(s, suffix)\<close> is
  \<^verbatim>\<open>len(s) >= len(suffix) && s[len(s)-len(suffix):] == suffix\<close>, and
  \<^verbatim>\<open>strings.TrimSuffix\<close> cuts the suffix off when it is there and returns
  the string unchanged otherwise.
\<close>

definition HasSuffix :: "string \<Rightarrow> string \<Rightarrow> bool" where
  "HasSuffix s suffix =
     (length s \<ge> length suffix \<and> drop (length s - length suffix) s = suffix)"

definition TrimSuffix :: "string \<Rightarrow> string \<Rightarrow> string" where
  "TrimSuffix s suffix =
     (if HasSuffix s suffix then take (length s - length suffix) s else s)"

definition rancherCAPISuffix :: string where
  "rancherCAPISuffix = ''-capi''"

definition ToCapiName :: "string \<Rightarrow> string" where
  "ToCapiName n = TrimSuffix n rancherCAPISuffix"

definition ToRancherName :: "string \<Rightarrow> string" where
  "ToRancherName n = ToCapiName n @ rancherCAPISuffix"


section \<open>Errors\<close>

text \<open>
  A Go \<^verbatim>\<open>error\<close> is either an API status error with its reason, an opaque error
  of a library (transport, YAML), an error wrapped by \<^verbatim>\<open>fmt.Errorf("msg: %w", err)\<close>
  or the aggregate built by \<^verbatim>\<open>errorutils.NewAggregate\<close>. A Go error value that may
  be \<^verbatim>\<open>nil\<close> is an \<open>error option\<close>.
\<close>

datatype StatusReason =
    StatusReasonUnknown
  | StatusReasonNotFound
  | StatusReasonAlreadyExists
  | StatusReasonConflict
  | StatusReasonForbidden
  | StatusReasonInvalid

datatype error =
    StatusError StatusReason
  | OtherError string
  | Wrapped string error
  | Aggregate "error list"

text \<open>
  \<^verbatim>\<open>apierrors.ReasonForError\<close> looks for a status error along the chain of wrapped
  errors (\<^verbatim>\<open>errors.As\<close>); the aggregate has no \<^verbatim>\<open>Unwrap\<close>.
\<close>

fun ReasonForError :: "error \<Rightarrow> StatusReason" where
  "ReasonForError (StatusError r) = r"
| "ReasonForError (OtherError msg) = StatusReasonUnknown"
| "ReasonForError (Wrapped msg e) = ReasonForError e"
| "ReasonForError (Aggregate es) = StatusReasonUnknown"

definition IsNotFound :: "error option \<Rightarrow> bool" where
  "IsNotFound err =
     (case err of None \<Rightarrow> False | Some e \<Rightarrow> ReasonForError e = StatusReasonNotFound)"

definition IsAlreadyExists :: "error option \<Rightarrow> bool" where
  "IsAlreadyExists err =
     (case err of None \<Rightarrow> False | Some e \<Rightarrow> ReasonForError e = StatusReasonAlreadyExists)"

definition IgnoreNotFound :: "error option \<Rightarrow> error option" where
  "IgnoreNotFound err = (if IsNotFound err then None else err)"

definition NewAggregate :: "error list \<Rightarrow> error option" where
  "NewAggregate errlist = (if length errlist = 0 then None else Some (Aggregate errlist))"

section \<open>Objects\<close>

text \<open>
  The fields of \<^verbatim>\<open>metav1.ObjectMeta\<close> the controller reads or writes. A Go map
  that is \<^verbatim>\<open>nil\<close> reads as the empty map, and the two are identified here.
  \<^verbatim>\<open>metav1.Time\<close> counts from the zero time, so that \<^verbatim>\<open>IsZero\<close> holds of a
  \<^verbatim>\<open>nil\<close> pointer and of the time 0.
\<close>

type_synonym Time = nat

record OwnerReference =
  ref_APIVersion :: string
  ref_Kind :: string
  ref_Name :: string
  ref_UID :: string

record ObjectMeta =
  Name :: string
  Namespace :: string
  UID :: string
  Labels :: "string \<rightharpoonup> string"
  Annotations :: "string \<rightharpoonup> string"
  OwnerReferences :: "OwnerReference list"
  DeletionTimestamp :: "Time option"

definition IsZero :: "Time option \<Rightarrow> bool" where
  "IsZero t = (case t of None \<Rightarrow> True | Some v \<Rightarrow> v = 0)"

type_synonym ObjectKey = "string \<times> string"

definition ObjectKeyFromObject :: "'a ObjectMeta_scheme \<Rightarrow> ObjectKey" where
  "ObjectKeyFromObject obj = (Namespace obj, Name obj)"

datatype ConditionStatus = ConditionTrue | ConditionFalse | ConditionUnknown

text \<open>The CAPI cluster (\<^verbatim>\<open>clusterv1.Cluster\<close>): its metadata, the readiness flag of
  its status and its conditions, each a type with a status.\<close>

record clusterv1_Cluster = ObjectMeta +
  Status_ControlPlaneReady :: bool
  Status_Conditions :: "(string \<times> ConditionStatus) list"

text \<open>The Rancher cluster (\<^verbatim>\<open>provisioningv1.Cluster\<close>), with the
  \<^verbatim>\<open>ClusterStatus\<close> of the source; the controller never looks at its spec.\<close>

record provisioningv1_Cluster = ObjectMeta +
  Status_ClusterName :: string
  Status_AgentDeployed :: bool
  Status_Ready :: bool

record ClusterRegistrationToken = ObjectMeta +
  Spec_ClusterName :: string
  Status_ManifestURL :: string

type_synonym corev1_Namespace = ObjectMeta

text \<open>An object of the import manifest: its group, version and kind and its metadata.\<close>

record Unstructured = ObjectMeta +
  GroupVersionKind :: string

record Result =
  Requeue :: bool
  RequeueAfter :: int

section \<open>Constants\<close>

definition importLabelName :: string where
  "importLabelName = ''cluster-api.cattle.io/rancher-auto-import''"

definition ownedLabelName :: string where
  "ownedLabelName = ''cluster-api.cattle.io/owned''"

text \<open>\<^verbatim>\<open>time.Duration\<close> counts nanoseconds.\<close>

definition Minute :: int where
  "Minute = 60 * 1000000000"

definition defaultRequeueDuration :: int where
  "defaultRequeueDuration = 1 * Minute"

text \<open>The names the CAPI API package (\<^verbatim>\<open>sigs.k8s.io/cluster-api/api/v1beta1\<close>) gives
  to its group and version, to the kind of a cluster and to the readiness condition.\<close>

definition clusterv1_GroupVersion :: string where
  "clusterv1_GroupVersion = ''cluster.x-k8s.io/v1beta1''"

definition clusterv1_ClusterKind :: string where
  "clusterv1_ClusterKind = ''Cluster''"

definition ControlPlaneReadyCondition :: string where
  "ControlPlaneReadyCondition = ''ControlPlaneReady''"

text \<open>\<^verbatim>\<open>conditions.IsTrue\<close> finds the first condition of the type and compares its
  status with \<^verbatim>\<open>True\<close>; a missing condition is not true.\<close>

definition conditions_IsTrue :: "clusterv1_Cluster \<Rightarrow> string \<Rightarrow> bool" where
  "conditions_IsTrue c t =
     (case map_of (Status_Conditions c) t of None \<Rightarrow> False | Some st \<Rightarrow> st = ConditionTrue)"


section \<open>The clients and the other collaborators\<close>

text \<open>
  The reconciler talks to the management cluster (\<^verbatim>\<open>r.Client\<close>), to Rancher
  (\<^verbatim>\<open>r.RancherClient\<close>) and to the workload cluster through interfaces. Their
  answers are left open: \<open>'w\<close> is the state of the world behind them, a read is a
  function of that state, and a write returns its outcome and the next state. A create
  fills the object it was given from the answer of the server, so creating a token
  returns the token.
\<close>

text \<open>The client of a workload cluster: its \<^verbatim>\<open>Create\<close> on manifest objects.\<close>

type_synonym 'w Client = "Unstructured \<Rightarrow> 'w \<Rightarrow> error option \<times> 'w"

text \<open>What one \<^verbatim>\<open>reader.Read()\<close> of the YAML reader returns before the end of
  the stream: the raw bytes of a document, or an error.\<close>

datatype read_result = ReadDocument string | ReadError error

record 'w env =
  Client_Get :: "ObjectKey \<Rightarrow> 'w \<Rightarrow> error + clusterv1_Cluster"
  Client_Get_Namespace :: "string \<Rightarrow> 'w \<Rightarrow> error + corev1_Namespace"
  Client_Patch :: "clusterv1_Cluster \<Rightarrow> clusterv1_Cluster \<Rightarrow> 'w \<Rightarrow> error option \<times> 'w"
  RancherClient_Get :: "ObjectKey \<Rightarrow> 'w \<Rightarrow> error + provisioningv1_Cluster"
  RancherClient_Create :: "provisioningv1_Cluster \<Rightarrow> 'w \<Rightarrow> error option \<times> 'w"
  RancherClient_Get_Token :: "ObjectKey \<Rightarrow> 'w \<Rightarrow> error + ClusterRegistrationToken"
  RancherClient_Create_Token ::
    "ClusterRegistrationToken \<Rightarrow> 'w \<Rightarrow> (error + ClusterRegistrationToken) \<times> 'w"
  remoteClientGetter :: "string \<Rightarrow> ObjectKey \<Rightarrow> 'w \<Rightarrow> error + 'w Client"
  InsecureSkipVerify :: bool
  http_Get :: "bool \<Rightarrow> string \<Rightarrow> error + (error + string)"
  YAMLReader :: "string \<Rightarrow> read_result list"
  ToUnstructured :: "string \<Rightarrow> error + Unstructured list"
  ClusterImportedAnnotation :: string

text \<open>
  \<open>http_Get\<close> is \<^verbatim>\<open>client.Get(url)\<close> of an HTTP client built with the given
  \<^verbatim>\<open>InsecureSkipVerify\<close>: an error, or a response whose body \<^verbatim>\<open>io.ReadAll\<close>
  reads to an error or to its text. \<open>YAMLReader\<close> gives the results of the successive
  reads of a manifest up to \<^verbatim>\<open>io.EOF\<close>; \<open>ToUnstructured\<close> is
  \<^verbatim>\<open>utilyaml.ToUnstructured\<close>. \<open>ClusterImportedAnnotation\<close> is the constant of
  the package \<^verbatim>\<open>util/annotations\<close>, which is not among the sources.
\<close>

text \<open>
  The writes a reconcile issues are recorded, each with its outcome, after the state
  of the world: that record is what the properties about writes speak of.
\<close>

datatype call =
    Patch clusterv1_Cluster clusterv1_Cluster
  | CreateCluster provisioningv1_Cluster
  | CreateToken ClusterRegistrationToken
  | RemoteCreate Unstructured

type_synonym 'w state = "'w \<times> (call \<times> error option) list"

definition do_Patch ::
  "'w env \<Rightarrow> clusterv1_Cluster \<Rightarrow> clusterv1_Cluster \<Rightarrow> 'w state \<Rightarrow> error option \<times> 'w state" where
  "do_Patch env obj base s =
     (let (err, w) = Client_Patch env obj base (fst s)
      in (err, (w, snd s @ [(Patch obj base, err)])))"

definition do_Create ::
  "'w env \<Rightarrow> provisioningv1_Cluster \<Rightarrow> 'w state \<Rightarrow> error option \<times> 'w state" where
  "do_Create env obj s =
     (let (err, w) = RancherClient_Create env obj (fst s)
      in (err, (w, snd s @ [(CreateCluster obj, err)])))"

definition do_Create_Token ::
  "'w env \<Rightarrow> ClusterRegistrationToken \<Rightarrow> 'w state
     \<Rightarrow> (error option \<times> ClusterRegistrationToken) \<times> 'w state" where
  "do_Create_Token env obj s =
     (let (r, w) = RancherClient_Create_Token env obj (fst s)
      in case r of
           Inl err \<Rightarrow> ((Some err, obj), (w, snd s @ [(CreateToken obj, Some err)]))
         | Inr created \<Rightarrow> ((None, created), (w, snd s @ [(CreateToken obj, None)])))"

definition do_RemoteCreate ::
  "'w Client \<Rightarrow> Unstructured \<Rightarrow> 'w state \<Rightarrow> error option \<times> 'w state" where
  "do_RemoteCreate c obj s =
     (let (err, w) = c obj (fst s)
      in (err, (w, snd s @ [(RemoteCreate obj, err)])))"

text \<open>A \<^verbatim>\<open>Get\<close> writes the object it found into the one it was given and leaves
  that one as it was when it fails.\<close>

definition Get_into :: "error + 'a \<Rightarrow> 'a \<Rightarrow> error option \<times> 'a" where
  "Get_into r obj = (case r of Inl err \<Rightarrow> (Some err, obj) | Inr found \<Rightarrow> (None, found))"

section \<open>Eligibility for auto-import\<close>

text \<open>
  Modelled from the spec: \<^verbatim>\<open>util.ShouldImport\<close> and \<^verbatim>\<open>util.ShouldAutoImport\<close>
  (package \<^verbatim>\<open>util\<close>) are not among the sources. The spec: "true if either the
  object's namespace or the object itself carries a designated label with a truthy
  value", the label being "read with a boolean-ish truthy check". The check is taken to
  be Go's \<^verbatim>\<open>strconv.ParseBool\<close>; \<open>ShouldImport\<close> returns whether the label is there
  and whether its value is truthy, as its call in \<^verbatim>\<open>namespaceToCapiClusters\<close> has
  it; \<open>ShouldAutoImport\<close> reads the namespace through the client it is given and
  returns the error of that read.
\<close>

definition truthy :: "string \<Rightarrow> bool" where
  "truthy v = (v \<in> set [''1'', ''t'', ''T'', ''TRUE'', ''true'', ''True''])"

definition ShouldImport :: "'a ObjectMeta_scheme \<Rightarrow> string \<Rightarrow> bool \<times> bool" where
  "ShouldImport obj label =
     (case Labels obj label of None \<Rightarrow> (False, False) | Some v \<Rightarrow> (True, truthy v))"

definition ShouldAutoImport ::
  "'w env \<Rightarrow> clusterv1_Cluster \<Rightarrow> string \<Rightarrow> 'w \<Rightarrow> bool \<times> error option" where
  "ShouldAutoImport env capiCluster label w =
     (case Client_Get_Namespace env (Namespace capiCluster) w of
        Inl err \<Rightarrow> (False, Some err)
      | Inr ns \<Rightarrow> (snd (ShouldImport ns label) \<or> snd (ShouldImport capiCluster label), None))"


section \<open>Applying the import manifest\<close>

definition createObject :: "'w Client \<Rightarrow> Unstructured \<Rightarrow> 'w state \<Rightarrow> error option \<times> 'w state" where
  "createObject c obj s =
     (let (err, s) = do_RemoteCreate c obj s
      in if IsAlreadyExists err then (None, s)
         else case err of
                Some e \<Rightarrow> (Some (Wrapped ''creating object in remote cluster'' e), s)
              | None \<Rightarrow> (None, s))"

text \<open>The loop of \<^verbatim>\<open>createRawManifest\<close> over the objects of one document.\<close>

fun createObjects :: "'w Client \<Rightarrow> Unstructured list \<Rightarrow> 'w state \<Rightarrow> error option \<times> 'w state" where
  "createObjects remoteClient [] s = (None, s)"
| "createObjects remoteClient (obj # items) s =
     (case createObject remoteClient obj s of
        (Some err, s) \<Rightarrow> (Some err, s)
      | (None, s) \<Rightarrow> createObjects remoteClient items s)"

definition createRawManifest ::
  "'w env \<Rightarrow> 'w Client \<Rightarrow> string \<Rightarrow> 'w state \<Rightarrow> error option \<times> 'w state" where
  "createRawManifest env remoteClient bytes s =
     (case ToUnstructured env bytes of
        Inl err \<Rightarrow>
          (Some (Wrapped ''error unmarshalling bytes or empty object passed'' err), s)
      | Inr items \<Rightarrow> createObjects remoteClient items s)"

text \<open>The loop of \<^verbatim>\<open>createImportManifest\<close> over the reads of the YAML reader; the
  end of the list is \<^verbatim>\<open>io.EOF\<close>.\<close>

fun readManifests ::
  "'w env \<Rightarrow> 'w Client \<Rightarrow> read_result list \<Rightarrow> 'w state \<Rightarrow> error option \<times> 'w state" where
  "readManifests env remoteClient [] s = (None, s)"
| "readManifests env remoteClient (ReadError err # reads) s = (Some err, s)"
| "readManifests env remoteClient (ReadDocument raw # reads) s =
     (case createRawManifest env remoteClient raw s of
        (Some err, s) \<Rightarrow> (Some err, s)
      | (None, s) \<Rightarrow> readManifests env remoteClient reads s)"

definition createImportManifest ::
  "'w env \<Rightarrow> 'w Client \<Rightarrow> string \<Rightarrow> 'w state \<Rightarrow> error option \<times> 'w state" where
  "createImportManifest env remoteClient input s =
     readManifests env remoteClient (YAMLReader env input) s"

section \<open>The registration manifest\<close>

definition downloadManifest :: "'w env \<Rightarrow> string \<Rightarrow> string \<times> error option" where
  "downloadManifest env url =
     (case http_Get env (InsecureSkipVerify env) url of
        Inl err \<Rightarrow> ([], Some (Wrapped ''downloading manifest'' err))
      | Inr body \<Rightarrow>
          (case body of
             Inl err \<Rightarrow> ([], Some (Wrapped ''reading manifest'' err))
           | Inr data \<Rightarrow> (data, None)))"

definition getClusterRegistrationManifest ::
  "'w env \<Rightarrow> string \<Rightarrow> string \<Rightarrow> 'w state \<Rightarrow> (string \<times> error option) \<times> 'w state" where
  "getClusterRegistrationManifest env clusterName namespace s =
     (let token = \<lparr>Name = clusterName, Namespace = namespace, UID = [],
                    Labels = Map.empty, Annotations = Map.empty, OwnerReferences = [],
                    DeletionTimestamp = None,
                    Spec_ClusterName = clusterName, Status_ManifestURL = []\<rparr>;
          (err, token) =
             Get_into (RancherClient_Get_Token env (ObjectKeyFromObject token) (fst s)) token
      in case IgnoreNotFound err of
           Some e \<Rightarrow>
             (([], Some (Wrapped (''error getting registration token for cluster '' @ clusterName) e)), s)
         | None \<Rightarrow>
             (let ((cerr, token), s) =
                    (if err \<noteq> None then do_Create_Token env token s else ((None, token), s))
              in case cerr of
                   Some e \<Rightarrow>
                     (([], Some (Wrapped (''failed to create cluster registration token for cluster ''
                                           @ clusterName) e)), s)
                 | None \<Rightarrow>
                     if Status_ManifestURL token = [] then (([], None), s)
                     else (downloadManifest env (Status_ManifestURL token), s)))"

section \<open>The reconciler\<close>

definition reconcileDelete ::
  "'w env \<Rightarrow> clusterv1_Cluster \<Rightarrow> 'w state
     \<Rightarrow> (Result \<times> error option) \<times> clusterv1_Cluster \<times> 'w state" where
  "reconcileDelete env capiCluster s =
     (let annotations = Annotations capiCluster;
          annotations = annotations(ClusterImportedAnnotation env \<mapsto> ''true'');
          capiCluster = capiCluster\<lparr>Annotations := annotations\<rparr>
      in ((\<lparr>Requeue = False, RequeueAfter = 0\<rparr>, None), capiCluster, s))"

definition reconcileNormal ::
  "'w env \<Rightarrow> clusterv1_Cluster \<Rightarrow> provisioningv1_Cluster \<Rightarrow> 'w state
     \<Rightarrow> (Result \<times> error option) \<times> 'w state" where
  "reconcileNormal env capiCluster rancherCluster s =
     (let (err, rancherCluster) =
            Get_into (RancherClient_Get env (ObjectKeyFromObject rancherCluster) (fst s))
              rancherCluster
      in if IsNotFound err then
           (let (shouldImport, err) = ShouldAutoImport env capiCluster importLabelName (fst s)
            in case err of
                 Some e \<Rightarrow> ((\<lparr>Requeue = False, RequeueAfter = 0\<rparr>, Some e), s)
               | None \<Rightarrow>
                   if \<not> shouldImport then ((\<lparr>Requeue = False, RequeueAfter = 0\<rparr>, None), s)
                   else
                     (let (err, s) =
                            do_Create env
                              \<lparr>Name = ToRancherName (Name capiCluster),
                               Namespace = Namespace capiCluster,
                               UID = [],
                               Labels = [ownedLabelName \<mapsto> []],
                               Annotations = Map.empty,
                               OwnerReferences =
                                 [\<lparr>ref_APIVersion = clusterv1_GroupVersion,
                                   ref_Kind = clusterv1_ClusterKind,
                                   ref_Name = Name capiCluster,
                                   ref_UID = UID capiCluster\<rparr>],
                               DeletionTimestamp = None,
                               Status_ClusterName = [], Status_AgentDeployed = False,
                               Status_Ready = False\<rparr> s
                      in case err of
                           Some e \<Rightarrow>
                             ((\<lparr>Requeue = False, RequeueAfter = 0\<rparr>,
                               Some (Wrapped ''error creating rancher cluster'' e)), s)
                         | None \<Rightarrow> ((\<lparr>Requeue = True, RequeueAfter = 0\<rparr>, None), s)))
         else case err of
           Some e \<Rightarrow> ((\<lparr>Requeue = False, RequeueAfter = 0\<rparr>, Some e), s)
         | None \<Rightarrow>
             if Status_ClusterName rancherCluster = [] then
               ((\<lparr>Requeue = True, RequeueAfter = 0\<rparr>, None), s)
             else if Status_AgentDeployed rancherCluster then
               ((\<lparr>Requeue = False, RequeueAfter = 0\<rparr>, None), s)
             else
               (let ((manifest, err), s) =
                      getClusterRegistrationManifest env (Status_ClusterName rancherCluster)
                        (Namespace capiCluster) s
                in case err of
                     Some e \<Rightarrow> ((\<lparr>Requeue = False, RequeueAfter = 0\<rparr>, Some e), s)
                   | None \<Rightarrow>
                       if manifest = [] then ((\<lparr>Requeue = True, RequeueAfter = 0\<rparr>, None), s)
                       else
                         (case remoteClientGetter env (Name capiCluster)
                                 (ObjectKeyFromObject capiCluster) (fst s) of
                            Inl e \<Rightarrow>
                              ((\<lparr>Requeue = False, RequeueAfter = 0\<rparr>,
                                Some (Wrapped ''getting remote cluster client'' e)), s)
                          | Inr remoteClient \<Rightarrow>
                              (let (err, s) = createImportManifest env remoteClient manifest s
                               in case err of
                                    Some e \<Rightarrow>
                                      ((\<lparr>Requeue = False, RequeueAfter = 0\<rparr>,
                                        Some (Wrapped ''creating import manifest'' e)), s)
                                  | None \<Rightarrow> ((\<lparr>Requeue = False, RequeueAfter = 0\<rparr>, None), s)))))"

definition reconcile ::
  "'w env \<Rightarrow> clusterv1_Cluster \<Rightarrow> 'w state
     \<Rightarrow> (Result \<times> error option) \<times> clusterv1_Cluster \<times> 'w state" where
  "reconcile env capiCluster s =
     (let rancherCluster =
            \<lparr>Name = ToRancherName (Name capiCluster), Namespace = Namespace capiCluster,
             UID = [], Labels = Map.empty, Annotations = Map.empty, OwnerReferences = [],
             DeletionTimestamp = None,
             Status_ClusterName = [], Status_AgentDeployed = False, Status_Ready = False\<rparr>;
          (err, rancherCluster) =
             Get_into (RancherClient_Get env (ObjectKeyFromObject rancherCluster) (fst s))
               rancherCluster
      in if IgnoreNotFound err \<noteq> None then ((\<lparr>Requeue = True, RequeueAfter = 0\<rparr>, err), capiCluster, s)
         else if \<not> IsZero (DeletionTimestamp rancherCluster) then reconcileDelete env capiCluster s
         else (let (r, s) = reconcileNormal env capiCluster rancherCluster s
               in (r, capiCluster, s)))"

definition Reconcile :: "'w env \<Rightarrow> ObjectKey \<Rightarrow> 'w state \<Rightarrow> (Result \<times> error option) \<times> 'w state" where
  "Reconcile env req s =
     (case Client_Get env req (fst s) of
        Inl err \<Rightarrow>
          if IsNotFound (Some err) then ((\<lparr>Requeue = True, RequeueAfter = 0\<rparr>, None), s)
          else ((\<lparr>Requeue = True, RequeueAfter = 0\<rparr>, Some err), s)
      | Inr capiCluster \<Rightarrow>
          (let patchBase = capiCluster
           in if \<not> Status_ControlPlaneReady capiCluster
                 \<and> \<not> conditions_IsTrue capiCluster ControlPlaneReadyCondition
              then ((\<lparr>Requeue = False, RequeueAfter = defaultRequeueDuration\<rparr>, None), s)
              else
                (let errs = [];
                     ((result, err), capiCluster, s) = reconcile env capiCluster s;
                     errs = (case err of
                               Some e \<Rightarrow> errs @ [Wrapped ''error reconciling cluster'' e]
                             | None \<Rightarrow> errs);
                     (perr, s) = do_Patch env capiCluster patchBase s;
                     errs = (case perr of
                               Some e \<Rightarrow> errs @ [Wrapped ''failed to patch cluster'' e]
                             | None \<Rightarrow> errs)
                 in if length errs > 0
                    then ((\<lparr>Requeue = False, RequeueAfter = 0\<rparr>, NewAggregate errs), s)
                    else ((result, None), s))))"

section \<open>Observing the writes\<close>

text \<open>Whether a recorded write is the creation of a Rancher cluster.\<close>

definition creates_cluster :: "call \<times> error option \<Rightarrow> bool" where
  "creates_cluster x = (case fst x of CreateCluster obj \<Rightarrow> True | _ \<Rightarrow> False)"

section \<open>A test double\<close>

text \<open>
  A concrete world to run the reconciler in, in the manner of a fake client. The state
  of the world is the list of the names of the objects in the workload cluster. Every
  CAPI cluster lives in the namespace \<open>ns\<close> and its name selects the scenario:
  \<open>plain\<close> has no import label, \<open>notready\<close> has no ready control plane, the Rancher
  cluster of \<open>deleting\<close> is being deleted, that of \<open>noname\<close> has no cluster name yet,
  that of \<open>nourl\<close> has a name and a token without a manifest URL, that of
  \<open>notoken\<close> has a name and no token yet, the Rancher client
  refuses to read that of \<open>failing\<close> and the patch of \<open>failing\<close> meets a conflict;
  any other cluster has no Rancher cluster yet.
\<close>

definition fake_capi :: "string \<Rightarrow> clusterv1_Cluster" where
  "fake_capi n =
     \<lparr>Name = n, Namespace = ''ns'', UID = ''uid-'' @ n,
      Labels = (if n = ''plain'' then Map.empty else [importLabelName \<mapsto> ''true'']),
      Annotations = Map.empty, OwnerReferences = [], DeletionTimestamp = None,
      Status_ControlPlaneReady = (n \<noteq> ''notready''), Status_Conditions = []\<rparr>"

definition fake_rancher :: "string \<Rightarrow> provisioningv1_Cluster" where
  "fake_rancher n =
     \<lparr>Name = n, Namespace = ''ns'', UID = [], Labels = Map.empty, Annotations = Map.empty,
      OwnerReferences = [],
      DeletionTimestamp = (if n = ''deleting-capi'' then Some 7 else None),
      Status_ClusterName = (if n = ''noname-capi'' then []
                            else if n = ''notoken-capi'' then ''c-m-2'' else ''c-m-1''),
      Status_AgentDeployed = False, Status_Ready = False\<rparr>"

definition fake_token :: "ObjectKey \<Rightarrow> ClusterRegistrationToken" where
  "fake_token key =
     \<lparr>Name = snd key, Namespace = fst key, UID = [], Labels = Map.empty,
      Annotations = Map.empty, OwnerReferences = [], DeletionTimestamp = None,
      Spec_ClusterName = snd key, Status_ManifestURL = []\<rparr>"

definition fake_object :: "string \<Rightarrow> Unstructured" where
  "fake_object n =
     \<lparr>Name = n, Namespace = ''cattle-system'', UID = [], Labels = Map.empty,
      Annotations = Map.empty, OwnerReferences = [], DeletionTimestamp = None,
      GroupVersionKind = ''v1/ConfigMap''\<rparr>"

text \<open>The workload cluster refuses the object \<open>x\<close>, knows the objects it holds and
  takes any other.\<close>

definition fake_remote :: "string list Client" where
  "fake_remote obj w =
     (if Name obj \<in> set w then (Some (StatusError StatusReasonAlreadyExists), w)
      else if Name obj = ''x'' then (Some (StatusError StatusReasonForbidden), w)
      else (None, w @ [Name obj]))"

text \<open>The documents of a fake manifest are separated by dashes; a document names one
  object with each of its characters, and does not parse when it has a colon.\<close>

fun fake_documents :: "string \<Rightarrow> string list" where
  "fake_documents [] = [[]]"
| "fake_documents (ch # rest) =
     (if ch = CHR ''-'' then [] # fake_documents rest
      else case fake_documents rest of
             [] \<Rightarrow> [[ch]]
           | d # ds \<Rightarrow> (ch # d) # ds)"

definition fake_env :: "string list env" where
  "fake_env =
     \<lparr>Client_Get = (\<lambda>key w. if fst key = ''ns'' then Inr (fake_capi (snd key))
                              else Inl (StatusError StatusReasonNotFound)),
      Client_Get_Namespace = (\<lambda>n w.
         Inr \<lparr>Name = n, Namespace = [], UID = [], Labels = Map.empty,
              Annotations = Map.empty, OwnerReferences = [], DeletionTimestamp = None\<rparr>),
      Client_Patch = (\<lambda>obj base w.
         if Name obj = ''failing'' then (Some (StatusError StatusReasonConflict), w)
         else (None, w)),
      RancherClient_Get = (\<lambda>key w.
         if snd key \<in> set [''deleting-capi'', ''noname-capi'', ''nourl-capi'', ''notoken-capi'']
         then Inr (fake_rancher (snd key))
         else if snd key = ''failing-capi'' then Inl (StatusError StatusReasonForbidden)
         else Inl (StatusError StatusReasonNotFound)),
      RancherClient_Create = (\<lambda>obj w. (None, w)),
      RancherClient_Get_Token = (\<lambda>key w.
         if snd key = ''c-m-2'' then Inl (StatusError StatusReasonNotFound)
         else Inr (fake_token key)),
      RancherClient_Create_Token = (\<lambda>obj w. (Inr obj, w)),
      remoteClientGetter = (\<lambda>n key w. Inr fake_remote),
      InsecureSkipVerify = False,
      http_Get = (\<lambda>insecure url. Inr (Inr ''ab-c:-d'')),
      YAMLReader = (\<lambda>input. map ReadDocument (fake_documents input)),
      ToUnstructured = (\<lambda>raw.
         if CHR '':'' \<in> set raw then Inl (OtherError ''invalid yaml'')
         else Inr (map (\<lambda>ch. fake_object [ch]) raw)),
      ClusterImportedAnnotation = ''imported''\<rparr>"


section \<open>Properties of the name conversion\<close>

lemma TrimSuffix_append: "TrimSuffix (s @ suffix) suffix = s"
  by (simp add: TrimSuffix_def HasSuffix_def)

lemma TrimSuffix_absent: "\<not> HasSuffix s suffix \<Longrightarrow> TrimSuffix s suffix = s"
  by (simp add: TrimSuffix_def)

lemma ToCapiName_ToRancherName: "ToCapiName (ToRancherName n) = ToCapiName n"
  by (simp add: ToCapiName_def ToRancherName_def TrimSuffix_append)

text \<open>
  Claim C8, as the code has it: for every CAPI cluster name \<open>n\<close> that does not end in
  \<open>-capi\<close>, converting \<open>n\<close> to its Rancher name and back yields \<open>n\<close>. (A name that
  ends in \<open>-capi\<close> is its own Rancher name and comes back without the suffix.)
\<close>

theorem ToCapiName_ToRancherName_roundtrip:
  "\<not> HasSuffix n rancherCAPISuffix \<Longrightarrow> ToCapiName (ToRancherName n) = n"
  by (simp add: ToCapiName_ToRancherName) (simp add: ToCapiName_def TrimSuffix_absent)

theorem ToCapiName_ToRancherName_roundtrip_witness:
  "\<not> HasSuffix ''prod'' rancherCAPISuffix \<and> ToCapiName (ToRancherName ''prod'') = ''prod''"
proof -
  have h: "\<not> HasSuffix ''prod'' rancherCAPISuffix"
    by (simp add: HasSuffix_def rancherCAPISuffix_def)
  from ToCapiName_ToRancherName_roundtrip [OF h] h show ?thesis by simp
qed

theorem roundtrip_loses_capi_suffix:
  "ToCapiName (ToRancherName ''prod-capi'') \<noteq> ''prod-capi''"
  by (simp add: ToCapiName_def ToRancherName_def TrimSuffix_def HasSuffix_def
      rancherCAPISuffix_def)

text \<open>
  Claim C9, as the code has it: \<open>ToRancherName n\<close> is the CAPI name of \<open>n\<close> followed by
  \<open>-capi\<close>, which is \<open>n\<close> followed by \<open>-capi\<close> for every \<open>n\<close> that does not end in
  \<open>-capi\<close> already; and \<open>ToRancherName\<close> is idempotent, the second application
  leaving the name of the first as it is.
\<close>

theorem ToRancherName_suffix_once:
  "ToRancherName n = ToCapiName n @ ''-capi''
   \<and> (\<not> HasSuffix n ''-capi'' \<longrightarrow> ToRancherName n = n @ ''-capi'')
   \<and> ToRancherName (ToRancherName n) = ToRancherName n"
proof (intro conjI impI)
  show "ToRancherName n = ToCapiName n @ ''-capi''"
    by (simp add: ToRancherName_def rancherCAPISuffix_def)
  show "ToRancherName n = n @ ''-capi''" if "\<not> HasSuffix n ''-capi''"
    using that
    by (simp add: ToRancherName_def ToCapiName_def rancherCAPISuffix_def TrimSuffix_absent)
  have "ToCapiName (ToCapiName n @ rancherCAPISuffix) = ToCapiName n"
    by (simp add: ToCapiName_def TrimSuffix_append)
  then show "ToRancherName (ToRancherName n) = ToRancherName n"
    by (simp add: ToRancherName_def)
qed

theorem ToRancherName_suffix_once_witness:
  "\<not> HasSuffix ''prod'' ''-capi'' \<and> ToRancherName ''prod'' = ''prod-capi''
   \<and> ToRancherName (ToRancherName ''prod'') = ''prod-capi''"
proof -
  have h: "\<not> HasSuffix ''prod'' ''-capi''"
    by (simp add: HasSuffix_def)
  have once: "ToRancherName ''prod'' = ''prod'' @ ''-capi''"
    using ToRancherName_suffix_once [of "''prod''"] h by blast
  have twice: "ToRancherName (ToRancherName ''prod'') = ToRancherName ''prod''"
    using ToRancherName_suffix_once [of "''prod''"] by blast
  from once twice h show ?thesis by simp
qed

theorem ToRancherName_does_not_append_twice:
  "ToRancherName ''prod-capi'' \<noteq> ''prod-capi'' @ ''-capi''
   \<and> ToRancherName (ToRancherName ''prod'') \<noteq> (''prod'' @ ''-capi'') @ ''-capi''"
  by (simp add: ToCapiName_def ToRancherName_def TrimSuffix_def HasSuffix_def
      rancherCAPISuffix_def)

section \<open>Properties of the reconciler\<close>

subsection \<open>The paths of \<open>Reconcile\<close> and of \<open>reconcile\<close>\<close>

text \<open>Past the fetch of the CAPI cluster and the readiness guard, \<open>Reconcile\<close> runs the
  transition, patches the cluster it got back against the cluster it fetched, and
  gathers the errors of the two.\<close>

lemma Reconcile_after_guard:
  assumes "Client_Get env req w = Inr capi"
      and "Status_ControlPlaneReady capi \<or> conditions_IsTrue capi ControlPlaneReadyCondition"
      and "reconcile env capi (w, tr) = ((res, err), capi', (w1, tr1))"
      and "Client_Patch env capi' capi w1 = (perr, w2)"
  shows "Reconcile env req (w, tr) =
           ((if err = None \<and> perr = None then res else \<lparr>Requeue = False, RequeueAfter = 0\<rparr>,
             NewAggregate
               ((case err of Some e \<Rightarrow> [Wrapped ''error reconciling cluster'' e] | None \<Rightarrow> [])
                @ (case perr of Some e \<Rightarrow> [Wrapped ''failed to patch cluster'' e] | None \<Rightarrow> []))),
            (w2, tr1 @ [(Patch capi' capi, perr)]))"
  using assms
  by (auto simp add: Reconcile_def do_Patch_def NewAggregate_def Let_def split: option.splits)

lemma reconcile_deleting:
  assumes "RancherClient_Get env (Namespace capi, ToRancherName (Name capi)) w = Inr rc"
      and "\<not> IsZero (DeletionTimestamp rc)"
  shows "reconcile env capi (w, tr) = reconcileDelete env capi (w, tr)"
  using assms
  by (simp add: reconcile_def Get_into_def ObjectKeyFromObject_def
      IgnoreNotFound_def IsNotFound_def)

lemma reconcile_not_eligible:
  assumes "RancherClient_Get env (Namespace capi, ToRancherName (Name capi)) w = Inl e"
      and "IsNotFound (Some e)"
      and "ShouldAutoImport env capi importLabelName w = (False, None)"
  shows "reconcile env capi (w, tr) =
           ((\<lparr>Requeue = False, RequeueAfter = 0\<rparr>, None), capi, (w, tr))"
  using assms
  by (simp add: reconcile_def reconcileNormal_def Get_into_def ObjectKeyFromObject_def
      IgnoreNotFound_def IsZero_def)

lemma reconcile_no_name:
  assumes "RancherClient_Get env (Namespace capi, ToRancherName (Name capi)) w = Inr rc"
      and "ObjectKeyFromObject rc = (Namespace capi, ToRancherName (Name capi))"
      and "IsZero (DeletionTimestamp rc)"
      and "Status_ClusterName rc = []"
  shows "reconcile env capi (w, tr) =
           ((\<lparr>Requeue = True, RequeueAfter = 0\<rparr>, None), capi, (w, tr))"
  using assms
  by (simp add: reconcile_def reconcileNormal_def Get_into_def ObjectKeyFromObject_def
      IgnoreNotFound_def IsNotFound_def)

lemma getClusterRegistrationManifest_empty_url:
  assumes "RancherClient_Get_Token env (namespace, clusterName) w = Inr token"
      and "Status_ManifestURL token = []"
  shows "getClusterRegistrationManifest env clusterName namespace (w, tr) = (([], None), (w, tr))"
  using assms
  by (simp add: getClusterRegistrationManifest_def Get_into_def ObjectKeyFromObject_def
      IgnoreNotFound_def IsNotFound_def)

lemma reconcile_no_manifest:
  assumes "RancherClient_Get env (Namespace capi, ToRancherName (Name capi)) w = Inr rc"
      and "ObjectKeyFromObject rc = (Namespace capi, ToRancherName (Name capi))"
      and "IsZero (DeletionTimestamp rc)"
      and "\<not> Status_AgentDeployed rc"
      and "RancherClient_Get_Token env (Namespace capi, Status_ClusterName rc) w = Inr token"
      and "Status_ManifestURL token = []"
  shows "reconcile env capi (w, tr) =
           ((\<lparr>Requeue = True, RequeueAfter = 0\<rparr>, None), capi, (w, tr))"
  using assms
  by (simp add: reconcile_def reconcileNormal_def Get_into_def ObjectKeyFromObject_def
      IgnoreNotFound_def IsNotFound_def getClusterRegistrationManifest_empty_url)

lemma getClusterRegistrationManifest_created_empty_url:
  assumes "RancherClient_Get_Token env (namespace, clusterName) w = Inl e"
      and "IsNotFound (Some e)"
      and "RancherClient_Create_Token env
             \<lparr>Name = clusterName, Namespace = namespace, UID = [], Labels = Map.empty,
              Annotations = Map.empty, OwnerReferences = [], DeletionTimestamp = None,
              Spec_ClusterName = clusterName, Status_ManifestURL = []\<rparr> w = (Inr created, w1)"
      and "Status_ManifestURL created = []"
  shows "getClusterRegistrationManifest env clusterName namespace (w, tr) =
           (([], None),
            (w1, tr @ [(CreateToken
               \<lparr>Name = clusterName, Namespace = namespace, UID = [], Labels = Map.empty,
                Annotations = Map.empty, OwnerReferences = [], DeletionTimestamp = None,
                Spec_ClusterName = clusterName, Status_ManifestURL = []\<rparr>, None)]))"
  using assms
  by (simp add: getClusterRegistrationManifest_def Get_into_def ObjectKeyFromObject_def
      IgnoreNotFound_def do_Create_Token_def)

lemma reconcile_token_created:
  assumes "RancherClient_Get env (Namespace capi, ToRancherName (Name capi)) w = Inr rc"
      and "ObjectKeyFromObject rc = (Namespace capi, ToRancherName (Name capi))"
      and "IsZero (DeletionTimestamp rc)"
      and "Status_ClusterName rc \<noteq> []"
      and "\<not> Status_AgentDeployed rc"
      and "RancherClient_Get_Token env (Namespace capi, Status_ClusterName rc) w = Inl e"
      and "IsNotFound (Some e)"
      and "RancherClient_Create_Token env
             \<lparr>Name = Status_ClusterName rc, Namespace = Namespace capi, UID = [],
              Labels = Map.empty, Annotations = Map.empty, OwnerReferences = [],
              DeletionTimestamp = None,
              Spec_ClusterName = Status_ClusterName rc, Status_ManifestURL = []\<rparr> w
             = (Inr created, w1)"
      and "Status_ManifestURL created = []"
  shows "reconcile env capi (w, tr) =
           ((\<lparr>Requeue = True, RequeueAfter = 0\<rparr>, None), capi,
            (w1, tr @ [(CreateToken
               \<lparr>Name = Status_ClusterName rc, Namespace = Namespace capi, UID = [],
                Labels = Map.empty, Annotations = Map.empty, OwnerReferences = [],
                DeletionTimestamp = None,
                Spec_ClusterName = Status_ClusterName rc, Status_ManifestURL = []\<rparr>, None)]))"
  using assms(1-5) getClusterRegistrationManifest_created_empty_url [OF assms(6-9), of tr]
  by (simp add: reconcile_def reconcileNormal_def Get_into_def ObjectKeyFromObject_def
      IgnoreNotFound_def IsNotFound_def)

subsection \<open>The facts about the test double\<close>

lemma fake_Client_Get: "Client_Get fake_env (''ns'', n) w = Inr (fake_capi n)"
  by (simp add: fake_env_def)

lemma fake_capi_ready:
  "n \<noteq> ''notready'' \<Longrightarrow>
     Status_ControlPlaneReady (fake_capi n)
     \<or> conditions_IsTrue (fake_capi n) ControlPlaneReadyCondition"
  by (simp add: fake_capi_def)

lemma fake_capi_meta: "Name (fake_capi n) = n" "Namespace (fake_capi n) = ''ns''"
  by (simp_all add: fake_capi_def)

lemma fake_Client_Patch:
  "Client_Patch fake_env obj base w =
     (if Name obj = ''failing'' then Some (StatusError StatusReasonConflict) else None, w)"
  by (simp add: fake_env_def)

lemma fake_RancherClient_Get:
  "RancherClient_Get fake_env (ns, n) w =
     (if n \<in> set [''deleting-capi'', ''noname-capi'', ''nourl-capi'', ''notoken-capi'']
      then Inr (fake_rancher n)
      else if n = ''failing-capi'' then Inl (StatusError StatusReasonForbidden)
      else Inl (StatusError StatusReasonNotFound))"
  by (simp add: fake_env_def)

lemma fake_ToRancherName:
  "ToRancherName ''absent'' = ''absent-capi''"
  "ToRancherName ''plain'' = ''plain-capi''"
  "ToRancherName ''deleting'' = ''deleting-capi''"
  "ToRancherName ''noname'' = ''noname-capi''"
  "ToRancherName ''nourl'' = ''nourl-capi''"
  "ToRancherName ''notoken'' = ''notoken-capi''"
  "ToRancherName ''failing'' = ''failing-capi''"
  by (simp_all add: ToRancherName_def ToCapiName_def TrimSuffix_def HasSuffix_def
      rancherCAPISuffix_def)

lemma fake_ShouldAutoImport:
  "ShouldAutoImport fake_env (fake_capi n) importLabelName w = (n \<noteq> ''plain'', None)"
  by (simp add: ShouldAutoImport_def ShouldImport_def fake_env_def fake_capi_def truthy_def)

subsection \<open>The claims\<close>

text \<open>
  Claim C4: when the fetched CAPI cluster is not ready, its readiness flag false and its
  \<open>ControlPlaneReady\<close> condition not true, \<open>Reconcile\<close> returns a requeue after the
  default delay of one minute (60 * 10^9 nanoseconds) with no error, and leaves the world
  and the record of writes as they were: it writes nothing.
\<close>

theorem not_ready_requeues_after_default_delay:
  assumes "Client_Get env req w = Inr capi"
      and "\<not> Status_ControlPlaneReady capi"
      and "\<not> conditions_IsTrue capi ControlPlaneReadyCondition"
  shows "Reconcile env req (w, tr) =
           ((\<lparr>Requeue = False, RequeueAfter = defaultRequeueDuration\<rparr>, None), (w, tr))
         \<and> defaultRequeueDuration = 60 * 1000000000"
  using assms by (simp add: Reconcile_def defaultRequeueDuration_def Minute_def)

theorem not_ready_requeues_after_default_delay_witness:
  "Client_Get fake_env (''ns'', ''notready'') [] = Inr (fake_capi ''notready'')
   \<and> \<not> Status_ControlPlaneReady (fake_capi ''notready'')
   \<and> \<not> conditions_IsTrue (fake_capi ''notready'') ControlPlaneReadyCondition
   \<and> Reconcile fake_env (''ns'', ''notready'') ([], []) =
       ((\<lparr>Requeue = False, RequeueAfter = 60000000000\<rparr>, None), ([], []))"
proof -
  have get: "Client_Get fake_env (''ns'', ''notready'') [] = Inr (fake_capi ''notready'')"
    by (rule fake_Client_Get)
  have flag: "\<not> Status_ControlPlaneReady (fake_capi ''notready'')"
    by (simp add: fake_capi_def)
  have cond: "\<not> conditions_IsTrue (fake_capi ''notready'') ControlPlaneReadyCondition"
    by (simp add: fake_capi_def conditions_IsTrue_def)
  from not_ready_requeues_after_default_delay [OF get flag cond, of "[]"] get flag cond
  show ?thesis by simp
qed

text \<open>
  Claim C1: for a CAPI cluster that is fetched with a ready control plane, that has no
  Rancher cluster yet (the read of it answers not found) and that is eligible for
  auto-import, the writes of \<open>Reconcile\<close> are exactly one create of a Rancher cluster
  followed by the final patch. The created cluster has the derived Rancher name and the
  namespace of the CAPI cluster, one owner reference with the CAPI API version, the
  kind \<open>Cluster\<close>, the name and the UID of the CAPI cluster, and the label
  \<open>cluster-api.cattle.io/owned\<close>. When the create succeeds the transition returns a
  requeue with no error, and so does \<open>Reconcile\<close> when its patch succeeds too.
\<close>

theorem reconcile_creates_rancher_cluster:
  fixes env :: "'w env" and capi :: clusterv1_Cluster
  defines "obj \<equiv>
             \<lparr>Name = ToRancherName (Name capi), Namespace = Namespace capi, UID = [],
              Labels = [ownedLabelName \<mapsto> []], Annotations = Map.empty,
              OwnerReferences = [\<lparr>ref_APIVersion = clusterv1_GroupVersion,
                                  ref_Kind = clusterv1_ClusterKind,
                                  ref_Name = Name capi, ref_UID = UID capi\<rparr>],
              DeletionTimestamp = None, Status_ClusterName = [],
              Status_AgentDeployed = False, Status_Ready = False\<rparr>"
  assumes get: "Client_Get env req w = Inr capi"
      and ready: "Status_ControlPlaneReady capi
                  \<or> conditions_IsTrue capi ControlPlaneReadyCondition"
      and absent: "RancherClient_Get env (Namespace capi, ToRancherName (Name capi)) w = Inl e"
      and notfound: "IsNotFound (Some e)"
      and eligible: "ShouldAutoImport env capi importLabelName w = (True, None)"
      and created: "RancherClient_Create env obj w = (cerr, w1)"
      and patched: "Client_Patch env capi capi w1 = (perr, w2)"
  shows "snd (Reconcile env req (w, tr))
           = (w2, tr @ [(CreateCluster obj, cerr), (Patch capi capi, perr)])
         \<and> (cerr = None \<longrightarrow>
              fst (reconcile env capi (w, tr)) = (\<lparr>Requeue = True, RequeueAfter = 0\<rparr>, None))
         \<and> (cerr = None \<and> perr = None \<longrightarrow>
              fst (Reconcile env req (w, tr)) = (\<lparr>Requeue = True, RequeueAfter = 0\<rparr>, None))"
proof -
  have rec: "reconcile env capi (w, tr) =
           ((case cerr of
               None \<Rightarrow> \<lparr>Requeue = True, RequeueAfter = 0\<rparr>
             | Some ce \<Rightarrow> \<lparr>Requeue = False, RequeueAfter = 0\<rparr>,
             case cerr of
               None \<Rightarrow> None
             | Some ce \<Rightarrow> Some (Wrapped ''error creating rancher cluster'' ce)),
            capi, (w1, tr @ [(CreateCluster obj, cerr)]))"
    using absent notfound eligible created
    by (simp add: reconcile_def reconcileNormal_def Get_into_def ObjectKeyFromObject_def
        IgnoreNotFound_def IsZero_def do_Create_def obj_def split: option.splits)
  from Reconcile_after_guard [OF get ready rec patched] rec
  show ?thesis by (simp add: NewAggregate_def)
qed

theorem reconcile_creates_rancher_cluster_witness:
  "Client_Get fake_env (''ns'', ''absent'') [] = Inr (fake_capi ''absent'')
   \<and> Status_ControlPlaneReady (fake_capi ''absent'')
   \<and> IsNotFound (Some (StatusError StatusReasonNotFound))
   \<and> ShouldAutoImport fake_env (fake_capi ''absent'') importLabelName [] = (True, None)
   \<and> Reconcile fake_env (''ns'', ''absent'') ([], []) =
       ((\<lparr>Requeue = True, RequeueAfter = 0\<rparr>, None),
        ([], [(CreateCluster
                 \<lparr>Name = ''absent-capi'', Namespace = ''ns'', UID = [],
                  Labels = [''cluster-api.cattle.io/owned'' \<mapsto> []],
                  Annotations = Map.empty,
                  OwnerReferences = [\<lparr>ref_APIVersion = ''cluster.x-k8s.io/v1beta1'',
                                      ref_Kind = ''Cluster'',
                                      ref_Name = ''absent'', ref_UID = ''uid-absent''\<rparr>],
                  DeletionTimestamp = None, Status_ClusterName = [],
                  Status_AgentDeployed = False, Status_Ready = False\<rparr>, None),
              (Patch (fake_capi ''absent'') (fake_capi ''absent''), None)]))"
proof -
  let ?capi = "fake_capi ''absent''"
  have get: "Client_Get fake_env (''ns'', ''absent'') [] = Inr ?capi"
    by (rule fake_Client_Get)
  have flag: "Status_ControlPlaneReady ?capi"
    by (simp add: fake_capi_def)
  then have ready: "Status_ControlPlaneReady ?capi
                    \<or> conditions_IsTrue ?capi ControlPlaneReadyCondition" ..
  have absent: "RancherClient_Get fake_env (Namespace ?capi, ToRancherName (Name ?capi)) []
                  = Inl (StatusError StatusReasonNotFound)"
    by (simp add: fake_RancherClient_Get fake_capi_meta fake_ToRancherName)
  have notfound: "IsNotFound (Some (StatusError StatusReasonNotFound))"
    by (simp add: IsNotFound_def)
  have eligible: "ShouldAutoImport fake_env ?capi importLabelName [] = (True, None)"
    by (simp add: fake_ShouldAutoImport)
  have created: "RancherClient_Create fake_env obj [] = (None, [])" for obj
    by (simp add: fake_env_def)
  have patched: "Client_Patch fake_env ?capi ?capi [] = (None, [])"
    by (simp add: fake_Client_Patch fake_capi_meta)
  from reconcile_creates_rancher_cluster
         [OF get ready absent notfound eligible created patched, of "[]"]
  have "Reconcile fake_env (''ns'', ''absent'') ([], []) =
          ((\<lparr>Requeue = True, RequeueAfter = 0\<rparr>, None),
           ([], [(CreateCluster
                 \<lparr>Name = ToRancherName (Name ?capi), Namespace = Namespace ?capi, UID = [],
                  Labels = [ownedLabelName \<mapsto> []], Annotations = Map.empty,
                  OwnerReferences = [\<lparr>ref_APIVersion = clusterv1_GroupVersion,
                                      ref_Kind = clusterv1_ClusterKind,
                                      ref_Name = Name ?capi, ref_UID = UID ?capi\<rparr>],
                  DeletionTimestamp = None, Status_ClusterName = [],
                  Status_AgentDeployed = False, Status_Ready = False\<rparr>, None),
              (Patch ?capi ?capi, None)]))"
    by (simp add: prod_eq_iff)
  moreover have "UID ?capi = ''uid-absent''"
    by (simp add: fake_capi_def)
  ultimately show ?thesis
    using get flag notfound eligible
    by (simp add: fake_capi_meta fake_ToRancherName ownedLabelName_def
        clusterv1_GroupVersion_def clusterv1_ClusterKind_def)
qed

text \<open>
  Claim C3: when the Rancher cluster that \<open>reconcile\<close> fetches has a non-zero deletion
  timestamp, \<open>reconcile\<close> is \<open>reconcileDelete\<close>: the check comes right after the
  fetch, before anything of the creation and update path. It returns the CAPI cluster
  with the imported annotation set to \<open>true\<close> and writes nothing; the one write of
  \<open>Reconcile\<close> is then its final patch, of the annotated cluster against the fetched
  one, and the result is a success without requeue when that patch succeeds.
\<close>

theorem deletion_annotates_and_only_patches:
  fixes env :: "'w env" and capi :: clusterv1_Cluster
  defines "annotated \<equiv>
             capi\<lparr>Annotations := (Annotations capi)(ClusterImportedAnnotation env \<mapsto> ''true'')\<rparr>"
  assumes get: "Client_Get env req w = Inr capi"
      and ready: "Status_ControlPlaneReady capi
                  \<or> conditions_IsTrue capi ControlPlaneReadyCondition"
      and found: "RancherClient_Get env (Namespace capi, ToRancherName (Name capi)) w = Inr rc"
      and deleting: "\<not> IsZero (DeletionTimestamp rc)"
      and patched: "Client_Patch env annotated capi w = (perr, w2)"
  shows "reconcile env capi (w, tr) = reconcileDelete env capi (w, tr)
         \<and> reconcile env capi (w, tr) =
             ((\<lparr>Requeue = False, RequeueAfter = 0\<rparr>, None), annotated, (w, tr))
         \<and> Annotations annotated (ClusterImportedAnnotation env) = Some ''true''
         \<and> snd (Reconcile env req (w, tr)) = (w2, tr @ [(Patch annotated capi, perr)])
         \<and> (perr = None \<longrightarrow>
              fst (Reconcile env req (w, tr)) = (\<lparr>Requeue = False, RequeueAfter = 0\<rparr>, None))"
proof -
  have del: "reconcile env capi (w, tr) = reconcileDelete env capi (w, tr)"
    using found deleting by (rule reconcile_deleting)
  have rec: "reconcile env capi (w, tr) =
               ((\<lparr>Requeue = False, RequeueAfter = 0\<rparr>, None), annotated, (w, tr))"
    by (simp add: del reconcileDelete_def annotated_def)
  have ann: "Annotations annotated (ClusterImportedAnnotation env) = Some ''true''"
    by (simp add: annotated_def)
  from Reconcile_after_guard [OF get ready rec patched] del rec ann
  show ?thesis by (simp add: NewAggregate_def)
qed

theorem deletion_annotates_and_only_patches_witness:
  "Client_Get fake_env (''ns'', ''deleting'') [] = Inr (fake_capi ''deleting'')
   \<and> Status_ControlPlaneReady (fake_capi ''deleting'')
   \<and> RancherClient_Get fake_env (''ns'', ''deleting-capi'') [] = Inr (fake_rancher ''deleting-capi'')
   \<and> \<not> IsZero (DeletionTimestamp (fake_rancher ''deleting-capi''))
   \<and> Reconcile fake_env (''ns'', ''deleting'') ([], []) =
       ((\<lparr>Requeue = False, RequeueAfter = 0\<rparr>, None),
        ([], [(Patch ((fake_capi ''deleting'')\<lparr>Annotations := [''imported'' \<mapsto> ''true'']\<rparr>)
                 (fake_capi ''deleting''), None)]))"
proof -
  let ?capi = "fake_capi ''deleting''"
  have get: "Client_Get fake_env (''ns'', ''deleting'') [] = Inr ?capi"
    by (rule fake_Client_Get)
  have flag: "Status_ControlPlaneReady ?capi"
    by (simp add: fake_capi_def)
  then have ready: "Status_ControlPlaneReady ?capi
                    \<or> conditions_IsTrue ?capi ControlPlaneReadyCondition" ..
  have found0: "RancherClient_Get fake_env (''ns'', ''deleting-capi'') []
                  = Inr (fake_rancher ''deleting-capi'')"
    by (simp add: fake_RancherClient_Get)
  then have found: "RancherClient_Get fake_env (Namespace ?capi, ToRancherName (Name ?capi)) []
                  = Inr (fake_rancher ''deleting-capi'')"
    by (simp add: fake_capi_meta fake_ToRancherName)
  have deleting: "\<not> IsZero (DeletionTimestamp (fake_rancher ''deleting-capi''))"
    by (simp add: fake_rancher_def IsZero_def)
  have patched: "Client_Patch fake_env
                   (?capi\<lparr>Annotations := (Annotations ?capi)(ClusterImportedAnnotation fake_env \<mapsto> ''true'')\<rparr>)
                   ?capi [] = (None, [])"
    by (simp add: fake_Client_Patch fake_capi_meta)
  have imported: "ClusterImportedAnnotation fake_env = ''imported''"
    by (simp add: fake_env_def)
  have none: "Annotations ?capi = Map.empty"
    by (simp add: fake_capi_def)
  from deletion_annotates_and_only_patches [OF get ready found deleting patched, of "[]"]
  have "Reconcile fake_env (''ns'', ''deleting'') ([], []) =
          ((\<lparr>Requeue = False, RequeueAfter = 0\<rparr>, None),
           ([], [(Patch (?capi\<lparr>Annotations := (Annotations ?capi)(ClusterImportedAnnotation fake_env \<mapsto> ''true'')\<rparr>)
                    ?capi, None)]))"
    by (simp add: prod_eq_iff)
  with get flag found0 deleting imported none show ?thesis by simp
qed

text \<open>
  Claim C7: once the CAPI cluster is fetched and passes the readiness guard,
  \<open>Reconcile\<close> always issues the patch of the cluster the transition returned against
  the cluster it fetched, as its last write, whether the transition failed or not. When
  both fail the error returned is the aggregate of the two, the error of the transition
  first; when one fails the aggregate holds that one; when none fails the result of the
  transition is returned.
\<close>

theorem patch_always_attempted_and_errors_aggregated:
  assumes get: "Client_Get env req w = Inr capi"
      and ready: "Status_ControlPlaneReady capi
                  \<or> conditions_IsTrue capi ControlPlaneReadyCondition"
      and rec: "reconcile env capi (w, tr) = ((res, err), capi', (w1, tr1))"
      and patched: "Client_Patch env capi' capi w1 = (perr, w2)"
  shows "snd (Reconcile env req (w, tr)) = (w2, tr1 @ [(Patch capi' capi, perr)])
         \<and> (\<forall>a b. err = Some a \<and> perr = Some b \<longrightarrow>
               fst (Reconcile env req (w, tr)) =
                 (\<lparr>Requeue = False, RequeueAfter = 0\<rparr>,
                  Some (Aggregate [Wrapped ''error reconciling cluster'' a,
                                   Wrapped ''failed to patch cluster'' b])))
         \<and> (\<forall>a. err = Some a \<and> perr = None \<longrightarrow>
               fst (Reconcile env req (w, tr)) =
                 (\<lparr>Requeue = False, RequeueAfter = 0\<rparr>,
                  Some (Aggregate [Wrapped ''error reconciling cluster'' a])))
         \<and> (\<forall>b. err = None \<and> perr = Some b \<longrightarrow>
               fst (Reconcile env req (w, tr)) =
                 (\<lparr>Requeue = False, RequeueAfter = 0\<rparr>,
                  Some (Aggregate [Wrapped ''failed to patch cluster'' b])))
         \<and> (err = None \<and> perr = None \<longrightarrow> fst (Reconcile env req (w, tr)) = (res, None))"
  using Reconcile_after_guard [OF get ready rec patched]
  by (simp add: NewAggregate_def)

theorem patch_always_attempted_and_errors_aggregated_witness:
  "Client_Get fake_env (''ns'', ''failing'') [] = Inr (fake_capi ''failing'')
   \<and> Status_ControlPlaneReady (fake_capi ''failing'')
   \<and> reconcile fake_env (fake_capi ''failing'') ([], []) =
       ((\<lparr>Requeue = True, RequeueAfter = 0\<rparr>, Some (StatusError StatusReasonForbidden)),
        fake_capi ''failing'', ([], []))
   \<and> Client_Patch fake_env (fake_capi ''failing'') (fake_capi ''failing'') [] =
       (Some (StatusError StatusReasonConflict), [])
   \<and> Reconcile fake_env (''ns'', ''failing'') ([], []) =
       ((\<lparr>Requeue = False, RequeueAfter = 0\<rparr>,
         Some (Aggregate [Wrapped ''error reconciling cluster'' (StatusError StatusReasonForbidden),
                          Wrapped ''failed to patch cluster'' (StatusError StatusReasonConflict)])),
        ([], [(Patch (fake_capi ''failing'') (fake_capi ''failing''),
               Some (StatusError StatusReasonConflict))]))"
proof -
  let ?capi = "fake_capi ''failing''"
  have get: "Client_Get fake_env (''ns'', ''failing'') [] = Inr ?capi"
    by (rule fake_Client_Get)
  have flag: "Status_ControlPlaneReady ?capi"
    by (simp add: fake_capi_def)
  then have ready: "Status_ControlPlaneReady ?capi
                    \<or> conditions_IsTrue ?capi ControlPlaneReadyCondition" ..
  have rec: "reconcile fake_env ?capi ([], []) =
       ((\<lparr>Requeue = True, RequeueAfter = 0\<rparr>, Some (StatusError StatusReasonForbidden)),
        ?capi, ([], []))"
    by (simp add: reconcile_def Get_into_def ObjectKeyFromObject_def fake_RancherClient_Get
        fake_capi_meta fake_ToRancherName IgnoreNotFound_def IsNotFound_def)
  have patched: "Client_Patch fake_env ?capi ?capi [] =
                   (Some (StatusError StatusReasonConflict), [])"
    by (simp add: fake_Client_Patch fake_capi_meta)
  from patch_always_attempted_and_errors_aggregated [OF get ready rec patched]
  have "Reconcile fake_env (''ns'', ''failing'') ([], []) =
       ((\<lparr>Requeue = False, RequeueAfter = 0\<rparr>,
         Some (Aggregate [Wrapped ''error reconciling cluster'' (StatusError StatusReasonForbidden),
                          Wrapped ''failed to patch cluster'' (StatusError StatusReasonConflict)])),
        ([], [(Patch ?capi ?capi, Some (StatusError StatusReasonConflict))]))"
    by (simp add: prod_eq_iff)
  with get flag rec patched show ?thesis by simp
qed

subsection \<open>Which writes create a Rancher cluster\<close>

text \<open>Neither the application of a manifest nor the retrieval of the registration
  manifest creates a Rancher cluster; \<open>reconcileNormal\<close> does so only when
  \<open>ShouldAutoImport\<close> said yes, and \<open>Reconcile\<close> only past its readiness guard.\<close>

lemma createObject_no_cluster:
  "createObject c obj (w, tr) = (r, (w', tr')) \<Longrightarrow>
     \<exists>new. tr' = tr @ new \<and> (\<forall>x\<in>set new. \<not> creates_cluster x)"
  by (cases "c obj w")
     (auto simp add: createObject_def do_RemoteCreate_def creates_cluster_def
       split: if_splits option.splits)

lemma createObjects_no_cluster:
  "createObjects c items (w, tr) = (r, (w', tr')) \<Longrightarrow>
     \<exists>new. tr' = tr @ new \<and> (\<forall>x\<in>set new. \<not> creates_cluster x)"
proof (induction items arbitrary: w tr)
  case Nil
  then show ?case by simp
next
  case (Cons obj items)
  obtain r1 w1 tr1 where step: "createObject c obj (w, tr) = (r1, (w1, tr1))"
    by (metis surj_pair)
  from createObject_no_cluster [OF step] obtain new1 where
    new1: "tr1 = tr @ new1" "\<forall>x\<in>set new1. \<not> creates_cluster x" by blast
  show ?case
  proof (cases r1)
    case None
    with Cons.prems step have "createObjects c items (w1, tr1) = (r, (w', tr'))" by simp
    from Cons.IH [OF this] obtain new2 where
      "tr' = tr1 @ new2" "\<forall>x\<in>set new2. \<not> creates_cluster x" by blast
    with new1 show ?thesis by (intro exI [of _ "new1 @ new2"]) auto
  next
    case (Some a)
    with Cons.prems step have "tr' = tr1" by simp
    with new1 show ?thesis by blast
  qed
qed

lemma readManifests_no_cluster:
  "readManifests env c reads (w, tr) = (r, (w', tr')) \<Longrightarrow>
     \<exists>new. tr' = tr @ new \<and> (\<forall>x\<in>set new. \<not> creates_cluster x)"
proof (induction reads arbitrary: w tr)
  case Nil
  then show ?case by simp
next
  case (Cons rd reads)
  show ?case
  proof (cases rd)
    case (ReadError err)
    with Cons.prems show ?thesis by simp
  next
    case (ReadDocument raw)
    obtain r1 w1 tr1 where step: "createRawManifest env c raw (w, tr) = (r1, (w1, tr1))"
      by (metis surj_pair)
    have "\<exists>new. tr1 = tr @ new \<and> (\<forall>x\<in>set new. \<not> creates_cluster x)"
    proof (cases "ToUnstructured env raw")
      case (Inl e)
      with step show ?thesis by (simp add: createRawManifest_def)
    next
      case (Inr items)
      with step have "createObjects c items (w, tr) = (r1, (w1, tr1))"
        by (simp add: createRawManifest_def)
      then show ?thesis by (rule createObjects_no_cluster)
    qed
    then obtain new1 where
      new1: "tr1 = tr @ new1" "\<forall>x\<in>set new1. \<not> creates_cluster x" by blast
    show ?thesis
    proof (cases r1)
      case None
      with Cons.prems step ReadDocument
      have "readManifests env c reads (w1, tr1) = (r, (w', tr'))" by simp
      from Cons.IH [OF this] obtain new2 where
        "tr' = tr1 @ new2" "\<forall>x\<in>set new2. \<not> creates_cluster x" by blast
      with new1 show ?thesis by (intro exI [of _ "new1 @ new2"]) auto
    next
      case (Some a)
      with Cons.prems step ReadDocument have "tr' = tr1" by simp
      with new1 show ?thesis by blast
    qed
  qed
qed

lemma getClusterRegistrationManifest_no_cluster:
  "getClusterRegistrationManifest env clusterName namespace (w, tr) = (r, (w', tr')) \<Longrightarrow>
     \<exists>new. tr' = tr @ new \<and> (\<forall>x\<in>set new. \<not> creates_cluster x)"
  by (cases "RancherClient_Create_Token env \<lparr>Name = clusterName, Namespace = namespace, UID = [],
                    Labels = Map.empty, Annotations = Map.empty, OwnerReferences = [],
                    DeletionTimestamp = None,
                    Spec_ClusterName = clusterName, Status_ManifestURL = []\<rparr> w")
     (auto simp add: getClusterRegistrationManifest_def Get_into_def do_Create_Token_def
       creates_cluster_def Let_def
       split: if_splits option.splits sum.splits prod.splits)


lemma reconcileNormal_found_no_cluster:
  assumes run: "reconcileNormal env capi rc (w, tr) = (r, (w', tr'))"
      and found: "RancherClient_Get env (ObjectKeyFromObject rc) w = Inr rc'"
  shows "\<exists>new. tr' = tr @ new \<and> (\<forall>x\<in>set new. \<not> creates_cluster x)"
proof -
  obtain m merr w1 tr1 where
    crm: "getClusterRegistrationManifest env (Status_ClusterName rc') (Namespace capi) (w, tr)
            = ((m, merr), (w1, tr1))"
    by (metis surj_pair)
  from getClusterRegistrationManifest_no_cluster [OF crm] obtain new1 where
    new1: "tr1 = tr @ new1" "\<forall>x\<in>set new1. \<not> creates_cluster x" by blast
  consider (quiet) "tr' = tr" | (token) "tr' = tr1"
    | (applied) remoteClient r2 where
        "createImportManifest env remoteClient m (w1, tr1) = (r2, (w', tr'))"
    using run found crm
    by (auto simp add: reconcileNormal_def Get_into_def IsNotFound_def Let_def
        split: if_splits option.splits sum.splits prod.splits)
  then show ?thesis
  proof cases
    case quiet
    then show ?thesis by simp
  next
    case token
    with new1 show ?thesis by blast
  next
    case applied
    then have "readManifests env remoteClient (YAMLReader env m) (w1, tr1) = (r2, (w', tr'))"
      by (simp add: createImportManifest_def)
    from readManifests_no_cluster [OF this] obtain new2 where
      "tr' = tr1 @ new2" "\<forall>x\<in>set new2. \<not> creates_cluster x" by blast
    with new1 show ?thesis by (intro exI [of _ "new1 @ new2"]) auto
  qed
qed

lemma reconcileNormal_create_only:
  assumes run: "reconcileNormal env capi rc (w, tr) = (r, (w', tr'))"
  shows "\<exists>new. tr' = tr @ new
           \<and> ((\<exists>x\<in>set new. creates_cluster x) \<longrightarrow>
                ShouldAutoImport env capi importLabelName w = (True, None))"
proof (cases "RancherClient_Get env (ObjectKeyFromObject rc) w")
  case (Inr rc')
  from reconcileNormal_found_no_cluster [OF run Inr] show ?thesis by blast
next
  case (Inl e)
  show ?thesis
  proof (cases "ShouldAutoImport env capi importLabelName w = (True, None) \<and> IsNotFound (Some e)")
    case True
    with run Inl have "\<exists>x. tr' = tr @ [x]"
      by (auto simp add: reconcileNormal_def Get_into_def do_Create_def Let_def
          split: option.splits prod.splits)
    with True show ?thesis by blast
  next
    case False
    with run Inl have "tr' = tr"
      by (cases "ShouldAutoImport env capi importLabelName w")
         (auto simp add: reconcileNormal_def Get_into_def Let_def
          split: option.splits prod.splits if_splits)
    then show ?thesis by simp
  qed
qed

lemma reconcile_create_only:
  assumes run: "reconcile env capi (w, tr) = (r, capi', (w', tr'))"
  shows "\<exists>new. tr' = tr @ new
           \<and> ((\<exists>x\<in>set new. creates_cluster x) \<longrightarrow>
                ShouldAutoImport env capi importLabelName w = (True, None))"
proof -
  consider (quiet) "tr' = tr"
    | (normal) rc r2 where "reconcileNormal env capi rc (w, tr) = (r2, (w', tr'))"
    using run
    by (auto simp add: reconcile_def reconcileDelete_def Let_def
        split: if_splits prod.splits)
  then show ?thesis
  proof cases
    case quiet
    then show ?thesis by simp
  next
    case normal
    then show ?thesis by (rule reconcileNormal_create_only)
  qed
qed

lemma Reconcile_create_only:
  assumes run: "snd (snd (Reconcile env req (w, tr))) = tr @ new"
      and mem: "\<exists>x\<in>set new. creates_cluster x"
  shows "\<exists>capi. Client_Get env req w = Inr capi
           \<and> (Status_ControlPlaneReady capi \<or> conditions_IsTrue capi ControlPlaneReadyCondition)
           \<and> ShouldAutoImport env capi importLabelName w = (True, None)"
proof (cases "Client_Get env req w")
  case (Inl e)
  with run have "new = []" by (simp add: Reconcile_def split: if_splits)
  with mem show ?thesis by simp
next
  case (Inr capi)
  show ?thesis
  proof (cases "Status_ControlPlaneReady capi \<or> conditions_IsTrue capi ControlPlaneReadyCondition")
    case False
    with run Inr have "new = []" by (simp add: Reconcile_def)
    with mem show ?thesis by simp
  next
    case True
    obtain res err capi' w1 tr1 where
      rec: "reconcile env capi (w, tr) = ((res, err), capi', (w1, tr1))"
      by (metis surj_pair)
    from reconcile_create_only [OF rec] obtain new1 where
      new1: "tr1 = tr @ new1"
        "(\<exists>x\<in>set new1. creates_cluster x) \<longrightarrow>
           ShouldAutoImport env capi importLabelName w = (True, None)" by blast
    obtain perr w2 where "Client_Patch env capi' capi w1 = (perr, w2)" by (metis surj_pair)
    from Reconcile_after_guard [OF Inr True rec this] run new1(1)
    have "new = new1 @ [(Patch capi' capi, perr)]" by simp
    with mem have "\<exists>x\<in>set new1. creates_cluster x"
      by (auto simp add: creates_cluster_def)
    with new1(2) Inr True show ?thesis by simp
  qed
qed

text \<open>
  Claim C2: whenever a create of a Rancher cluster is among the writes of a
  \<open>Reconcile\<close>, the CAPI cluster was fetched with a ready control plane (flag or
  condition) and \<open>ShouldAutoImport\<close> answered true, that is the cluster or its
  namespace carries the auto-import label with a truthy value. And when the Rancher
  cluster is absent and the CAPI cluster is not eligible, the transition writes nothing
  and returns a success without requeue; \<open>Reconcile\<close> then issues its final patch only,
  and returns that success when the patch succeeds.
\<close>

theorem create_only_when_eligible_and_ready:
  "(snd (snd (Reconcile env req (w, tr))) = tr @ new \<and> (CreateCluster obj, out) \<in> set new \<longrightarrow>
      (\<exists>capi. Client_Get env req w = Inr capi
         \<and> (Status_ControlPlaneReady capi
              \<or> conditions_IsTrue capi ControlPlaneReadyCondition)
         \<and> ShouldAutoImport env capi importLabelName w = (True, None)
         \<and> ((\<exists>v. Labels capi importLabelName = Some v \<and> truthy v)
              \<or> (\<exists>ns v. Client_Get_Namespace env (Namespace capi) w = Inr ns
                         \<and> Labels ns importLabelName = Some v \<and> truthy v))))
   \<and> (RancherClient_Get env (Namespace c, ToRancherName (Name c)) w = Inl e
        \<and> IsNotFound (Some e)
        \<and> ShouldAutoImport env c importLabelName w = (False, None) \<longrightarrow>
        reconcile env c (w, tr) = ((\<lparr>Requeue = False, RequeueAfter = 0\<rparr>, None), c, (w, tr))
        \<and> (Client_Get env req w = Inr c
             \<and> (Status_ControlPlaneReady c \<or> conditions_IsTrue c ControlPlaneReadyCondition)
             \<and> Client_Patch env c c w = (perr, w2) \<longrightarrow>
             snd (Reconcile env req (w, tr)) = (w2, tr @ [(Patch c c, perr)])
             \<and> (perr = None \<longrightarrow>
                  fst (Reconcile env req (w, tr)) =
                    (\<lparr>Requeue = False, RequeueAfter = 0\<rparr>, None))))"
proof (intro conjI impI)
  assume a: "snd (snd (Reconcile env req (w, tr))) = tr @ new \<and> (CreateCluster obj, out) \<in> set new"
  then have run: "snd (snd (Reconcile env req (w, tr))) = tr @ new"
    and mem: "(CreateCluster obj, out) \<in> set new"
    by simp_all
  have "creates_cluster (CreateCluster obj, out)"
    by (simp add: creates_cluster_def)
  with mem have "\<exists>x\<in>set new. creates_cluster x" ..
  from Reconcile_create_only [OF run this] obtain capi where
        get: "Client_Get env req w = Inr capi"
    and ready: "Status_ControlPlaneReady capi
                \<or> conditions_IsTrue capi ControlPlaneReadyCondition"
    and yes: "ShouldAutoImport env capi importLabelName w = (True, None)"
    by blast
  from yes have "(\<exists>v. Labels capi importLabelName = Some v \<and> truthy v)
              \<or> (\<exists>ns v. Client_Get_Namespace env (Namespace capi) w = Inr ns
                         \<and> Labels ns importLabelName = Some v \<and> truthy v)"
    by (auto simp add: ShouldAutoImport_def ShouldImport_def split: sum.splits option.splits)
  with get ready yes
  show "\<exists>capi. Client_Get env req w = Inr capi
         \<and> (Status_ControlPlaneReady capi
              \<or> conditions_IsTrue capi ControlPlaneReadyCondition)
         \<and> ShouldAutoImport env capi importLabelName w = (True, None)
         \<and> ((\<exists>v. Labels capi importLabelName = Some v \<and> truthy v)
              \<or> (\<exists>ns v. Client_Get_Namespace env (Namespace capi) w = Inr ns
                         \<and> Labels ns importLabelName = Some v \<and> truthy v))"
    by blast
next
  assume b: "RancherClient_Get env (Namespace c, ToRancherName (Name c)) w = Inl e
        \<and> IsNotFound (Some e)
        \<and> ShouldAutoImport env c importLabelName w = (False, None)"
  then show rec: "reconcile env c (w, tr) =
                    ((\<lparr>Requeue = False, RequeueAfter = 0\<rparr>, None), c, (w, tr))"
    by (simp add: reconcile_not_eligible)
  assume p: "Client_Get env req w = Inr c
             \<and> (Status_ControlPlaneReady c \<or> conditions_IsTrue c ControlPlaneReadyCondition)
             \<and> Client_Patch env c c w = (perr, w2)"
  then have whole: "Reconcile env req (w, tr) =
           ((if perr = None then \<lparr>Requeue = False, RequeueAfter = 0\<rparr>
             else \<lparr>Requeue = False, RequeueAfter = 0\<rparr>,
             NewAggregate
               (case perr of Some e \<Rightarrow> [Wrapped ''failed to patch cluster'' e] | None \<Rightarrow> [])),
            (w2, tr @ [(Patch c c, perr)]))"
    using Reconcile_after_guard [OF _ _ rec, of req perr w2] by simp
  then show "snd (Reconcile env req (w, tr)) = (w2, tr @ [(Patch c c, perr)])"
    by simp
  show "fst (Reconcile env req (w, tr)) = (\<lparr>Requeue = False, RequeueAfter = 0\<rparr>, None)"
    if "perr = None"
    using whole that by (simp add: NewAggregate_def)
qed

theorem create_only_when_eligible_and_ready_witness:
  "(CreateCluster
      \<lparr>Name = ''absent-capi'', Namespace = ''ns'', UID = [],
       Labels = [''cluster-api.cattle.io/owned'' \<mapsto> []], Annotations = Map.empty,
       OwnerReferences = [\<lparr>ref_APIVersion = ''cluster.x-k8s.io/v1beta1'',
                           ref_Kind = ''Cluster'',
                           ref_Name = ''absent'', ref_UID = ''uid-absent''\<rparr>],
       DeletionTimestamp = None, Status_ClusterName = [],
       Status_AgentDeployed = False, Status_Ready = False\<rparr>, None)
     \<in> set (snd (snd (Reconcile fake_env (''ns'', ''absent'') ([], []))))
   \<and> (\<exists>capi. Client_Get fake_env (''ns'', ''absent'') [] = Inr capi
         \<and> (Status_ControlPlaneReady capi
              \<or> conditions_IsTrue capi ControlPlaneReadyCondition)
         \<and> ShouldAutoImport fake_env capi importLabelName [] = (True, None))
   \<and> ShouldAutoImport fake_env (fake_capi ''plain'') importLabelName [] = (False, None)
   \<and> Reconcile fake_env (''ns'', ''plain'') ([], []) =
       ((\<lparr>Requeue = False, RequeueAfter = 0\<rparr>, None),
        ([], [(Patch (fake_capi ''plain'') (fake_capi ''plain''), None)]))"
proof -
  let ?obj = "\<lparr>Name = ''absent-capi'', Namespace = ''ns'', UID = [],
       Labels = [''cluster-api.cattle.io/owned'' \<mapsto> []], Annotations = Map.empty,
       OwnerReferences = [\<lparr>ref_APIVersion = ''cluster.x-k8s.io/v1beta1'',
                           ref_Kind = ''Cluster'',
                           ref_Name = ''absent'', ref_UID = ''uid-absent''\<rparr>],
       DeletionTimestamp = None, Status_ClusterName = [],
       Status_AgentDeployed = False, Status_Ready = False\<rparr>"
  let ?new = "snd (snd (Reconcile fake_env (''ns'', ''absent'') ([], [])))"
  have run: "Reconcile fake_env (''ns'', ''absent'') ([], []) =
       ((\<lparr>Requeue = True, RequeueAfter = 0\<rparr>, None),
        ([], [(CreateCluster ?obj, None),
              (Patch (fake_capi ''absent'') (fake_capi ''absent''), None)]))"
    by (simp add: Reconcile_def reconcile_def reconcileNormal_def do_Create_def do_Patch_def
        Get_into_def ObjectKeyFromObject_def IgnoreNotFound_def IsNotFound_def IsZero_def
        fake_Client_Get fake_RancherClient_Get fake_ShouldAutoImport fake_Client_Patch
        fake_capi_meta fake_ToRancherName ownedLabelName_def clusterv1_GroupVersion_def
        clusterv1_ClusterKind_def)
       (simp add: fake_env_def fake_capi_def)
  then have mem: "(CreateCluster ?obj, None) \<in> set ?new" by simp
  have new: "?new = [] @ ?new" by simp
  from create_only_when_eligible_and_ready
         [of fake_env "(''ns'', ''absent'')" "[]" "[]" ?new ?obj None] new mem
  have first: "\<exists>capi. Client_Get fake_env (''ns'', ''absent'') [] = Inr capi
         \<and> (Status_ControlPlaneReady capi
              \<or> conditions_IsTrue capi ControlPlaneReadyCondition)
         \<and> ShouldAutoImport fake_env capi importLabelName [] = (True, None)"
    by blast
  let ?plain = "fake_capi ''plain''"
  have absent: "RancherClient_Get fake_env (Namespace ?plain, ToRancherName (Name ?plain)) []
                  = Inl (StatusError StatusReasonNotFound)"
    by (simp add: fake_RancherClient_Get fake_capi_meta fake_ToRancherName)
  have notfound: "IsNotFound (Some (StatusError StatusReasonNotFound))"
    by (simp add: IsNotFound_def)
  have no: "ShouldAutoImport fake_env ?plain importLabelName [] = (False, None)"
    by (simp add: fake_ShouldAutoImport)
  have get: "Client_Get fake_env (''ns'', ''plain'') [] = Inr ?plain"
    by (rule fake_Client_Get)
  have ready: "Status_ControlPlaneReady ?plain
               \<or> conditions_IsTrue ?plain ControlPlaneReadyCondition"
    by (simp add: fake_capi_ready)
  have patched: "Client_Patch fake_env ?plain ?plain [] = (None, [])"
    by (simp add: fake_Client_Patch fake_capi_meta)
  from create_only_when_eligible_and_ready
         [of fake_env "(''ns'', ''plain'')" "[]" "[]" _ _ _ ?plain
             "StatusError StatusReasonNotFound" None "[]"]
       absent notfound no get ready patched
  have second: "Reconcile fake_env (''ns'', ''plain'') ([], []) =
       ((\<lparr>Requeue = False, RequeueAfter = 0\<rparr>, None),
        ([], [(Patch ?plain ?plain, None)]))"
    by (simp add: prod_eq_iff)
  from mem first no second show ?thesis by blast
qed

text \<open>
  Claim C10, as the code has it: when the Rancher cluster exists, is not being deleted and
  has no cluster name in its status yet, and when it has one, its agent is not deployed
  and the manifest URL of the registration token is still empty, the token being there
  already or created in this invocation, the transition returns an immediate requeue
  (\<open>Requeue\<close> true and no \<open>RequeueAfter\<close>, not the delay of one minute) with no
  error and does nothing further: its only write is the create of the token where the
  token was missing. \<open>Reconcile\<close> then issues its final patch of the unchanged CAPI
  cluster, and returns that requeue when the patch succeeds.
\<close>

theorem waiting_states_requeue_immediately:
  fixes env :: "'w env" and capi :: clusterv1_Cluster and rc :: provisioningv1_Cluster
  defines "token \<equiv>
             \<lparr>Name = Status_ClusterName rc, Namespace = Namespace capi, UID = [],
              Labels = Map.empty, Annotations = Map.empty, OwnerReferences = [],
              DeletionTimestamp = None,
              Spec_ClusterName = Status_ClusterName rc, Status_ManifestURL = []\<rparr>"
  assumes found: "RancherClient_Get env (Namespace capi, ToRancherName (Name capi)) w = Inr rc"
      and key: "ObjectKeyFromObject rc = (Namespace capi, ToRancherName (Name capi))"
      and live: "IsZero (DeletionTimestamp rc)"
      and waiting:
        "(Status_ClusterName rc = [] \<and> s1 = (w, tr))
         \<or> (Status_ClusterName rc \<noteq> [] \<and> \<not> Status_AgentDeployed rc
              \<and> (\<exists>existing. RancherClient_Get_Token env (Namespace capi, Status_ClusterName rc) w
                                = Inr existing
                            \<and> Status_ManifestURL existing = [])
              \<and> s1 = (w, tr))
         \<or> (Status_ClusterName rc \<noteq> [] \<and> \<not> Status_AgentDeployed rc
              \<and> (\<exists>e created w1.
                     RancherClient_Get_Token env (Namespace capi, Status_ClusterName rc) w = Inl e
                     \<and> IsNotFound (Some e)
                     \<and> RancherClient_Create_Token env token w = (Inr created, w1)
                     \<and> Status_ManifestURL created = []
                     \<and> s1 = (w1, tr @ [(CreateToken token, None)])))"
  shows "reconcile env capi (w, tr) =
           ((\<lparr>Requeue = True, RequeueAfter = 0\<rparr>, None), capi, s1)
         \<and> (Client_Get env req w = Inr capi
              \<and> (Status_ControlPlaneReady capi
                   \<or> conditions_IsTrue capi ControlPlaneReadyCondition)
              \<and> Client_Patch env capi capi (fst s1) = (perr, w2) \<longrightarrow>
              snd (Reconcile env req (w, tr)) = (w2, snd s1 @ [(Patch capi capi, perr)])
              \<and> (perr = None \<longrightarrow>
                   fst (Reconcile env req (w, tr)) =
                     (\<lparr>Requeue = True, RequeueAfter = 0\<rparr>, None)))"
proof (intro conjI impI)
  from waiting show rec: "reconcile env capi (w, tr) =
                            ((\<lparr>Requeue = True, RequeueAfter = 0\<rparr>, None), capi, s1)"
  proof (elim disjE conjE exE)
    assume "Status_ClusterName rc = []" and "s1 = (w, tr)"
    with reconcile_no_name [OF found key live] show ?thesis by simp
  next
    fix existing
    assume "\<not> Status_AgentDeployed rc"
      and "RancherClient_Get_Token env (Namespace capi, Status_ClusterName rc) w = Inr existing"
      and "Status_ManifestURL existing = []"
      and "s1 = (w, tr)"
    with reconcile_no_manifest [OF found key live] show ?thesis by simp
  next
    fix e created w1
    assume named: "Status_ClusterName rc \<noteq> []"
      and agent: "\<not> Status_AgentDeployed rc"
      and missing: "RancherClient_Get_Token env (Namespace capi, Status_ClusterName rc) w = Inl e"
      and notfound: "IsNotFound (Some e)"
      and created: "RancherClient_Create_Token env token w = (Inr created, w1)"
      and url: "Status_ManifestURL created = []"
      and s1: "s1 = (w1, tr @ [(CreateToken token, None)])"
    from reconcile_token_created
           [OF found key live named agent missing notfound created [unfolded token_def] url, of tr]
         s1
    show ?thesis by (simp add: token_def)
  qed
  assume p: "Client_Get env req w = Inr capi
              \<and> (Status_ControlPlaneReady capi
                   \<or> conditions_IsTrue capi ControlPlaneReadyCondition)
              \<and> Client_Patch env capi capi (fst s1) = (perr, w2)"
  obtain w1 tr1 where s1: "s1 = (w1, tr1)" by (cases s1)
  from p s1 have whole: "Reconcile env req (w, tr) =
           ((if perr = None then \<lparr>Requeue = True, RequeueAfter = 0\<rparr>
             else \<lparr>Requeue = False, RequeueAfter = 0\<rparr>,
             NewAggregate
               (case perr of Some e \<Rightarrow> [Wrapped ''failed to patch cluster'' e] | None \<Rightarrow> [])),
            (w2, tr1 @ [(Patch capi capi, perr)]))"
    using Reconcile_after_guard [OF _ _ rec [unfolded s1], of req perr w2] by simp
  then show "snd (Reconcile env req (w, tr)) = (w2, snd s1 @ [(Patch capi capi, perr)])"
    using s1 by simp
  show "fst (Reconcile env req (w, tr)) = (\<lparr>Requeue = True, RequeueAfter = 0\<rparr>, None)"
    if "perr = None"
    using whole that by (simp add: NewAggregate_def)
qed

theorem waiting_states_requeue_immediately_witness:
  "Status_ClusterName (fake_rancher ''noname-capi'') = []
   \<and> reconcile fake_env (fake_capi ''noname'') ([], []) =
       ((\<lparr>Requeue = True, RequeueAfter = 0\<rparr>, None), fake_capi ''noname'', ([], []))
   \<and> Status_ClusterName (fake_rancher ''nourl-capi'') = ''c-m-1''
   \<and> \<not> Status_AgentDeployed (fake_rancher ''nourl-capi'')
   \<and> Status_ManifestURL (fake_token (''ns'', ''c-m-1'')) = []
   \<and> Reconcile fake_env (''ns'', ''nourl'') ([], []) =
       ((\<lparr>Requeue = True, RequeueAfter = 0\<rparr>, None),
        ([], [(Patch (fake_capi ''nourl'') (fake_capi ''nourl''), None)]))
   \<and> Status_ClusterName (fake_rancher ''notoken-capi'') = ''c-m-2''
   \<and> \<not> Status_AgentDeployed (fake_rancher ''notoken-capi'')
   \<and> RancherClient_Get_Token fake_env (''ns'', ''c-m-2'') []
       = Inl (StatusError StatusReasonNotFound)
   \<and> Reconcile fake_env (''ns'', ''notoken'') ([], []) =
       ((\<lparr>Requeue = True, RequeueAfter = 0\<rparr>, None),
        ([], [(CreateToken (fake_token (''ns'', ''c-m-2'')), None),
              (Patch (fake_capi ''notoken'') (fake_capi ''notoken''), None)]))"
proof -
  let ?a = "fake_capi ''noname''" and ?ra = "fake_rancher ''noname-capi''"
  have found_a: "RancherClient_Get fake_env (Namespace ?a, ToRancherName (Name ?a)) [] = Inr ?ra"
    by (simp add: fake_RancherClient_Get fake_capi_meta fake_ToRancherName)
  have key_a: "ObjectKeyFromObject ?ra = (Namespace ?a, ToRancherName (Name ?a))"
    by (simp add: ObjectKeyFromObject_def fake_rancher_def fake_capi_meta fake_ToRancherName)
  have live_a: "IsZero (DeletionTimestamp ?ra)"
    by (simp add: fake_rancher_def IsZero_def)
  have noname: "Status_ClusterName ?ra = []"
    by (simp add: fake_rancher_def)
  from waiting_states_requeue_immediately
         [OF found_a key_a live_a, of "([], [])" "[]"] noname
  have first: "reconcile fake_env ?a ([], []) =
                 ((\<lparr>Requeue = True, RequeueAfter = 0\<rparr>, None), ?a, ([], []))"
    by blast
  let ?b = "fake_capi ''nourl''" and ?rb = "fake_rancher ''nourl-capi''"
  have found_b: "RancherClient_Get fake_env (Namespace ?b, ToRancherName (Name ?b)) [] = Inr ?rb"
    by (simp add: fake_RancherClient_Get fake_capi_meta fake_ToRancherName)
  have key_b: "ObjectKeyFromObject ?rb = (Namespace ?b, ToRancherName (Name ?b))"
    by (simp add: ObjectKeyFromObject_def fake_rancher_def fake_capi_meta fake_ToRancherName)
  have live_b: "IsZero (DeletionTimestamp ?rb)"
    by (simp add: fake_rancher_def IsZero_def)
  have name_b: "Status_ClusterName ?rb = ''c-m-1''"
    by (simp add: fake_rancher_def)
  have agent_b: "\<not> Status_AgentDeployed ?rb"
    by (simp add: fake_rancher_def)
  have token_b: "RancherClient_Get_Token fake_env (Namespace ?b, Status_ClusterName ?rb) []
                   = Inr (fake_token (''ns'', ''c-m-1''))"
    by (simp add: fake_env_def fake_capi_meta name_b)
  have url_b: "Status_ManifestURL (fake_token (''ns'', ''c-m-1'')) = []"
    by (simp add: fake_token_def)
  have get_b: "Client_Get fake_env (''ns'', ''nourl'') [] = Inr ?b"
    by (rule fake_Client_Get)
  have ready_b: "Status_ControlPlaneReady ?b \<or> conditions_IsTrue ?b ControlPlaneReadyCondition"
    by (simp add: fake_capi_ready)
  have patched_b: "Client_Patch fake_env ?b ?b [] = (None, [])"
    by (simp add: fake_Client_Patch fake_capi_meta)
  have waiting_b: "Status_ClusterName ?rb \<noteq> [] \<and> \<not> Status_AgentDeployed ?rb
              \<and> (\<exists>existing. RancherClient_Get_Token fake_env (Namespace ?b, Status_ClusterName ?rb) []
                                = Inr existing
                            \<and> Status_ManifestURL existing = [])
              \<and> ([], []) = ([]::string list, []::(call \<times> error option) list)"
    using name_b agent_b token_b url_b by simp
  from waiting_states_requeue_immediately
         [OF found_b key_b live_b, of "([], [])" "[]" "(''ns'', ''nourl'')" None "[]"]
       waiting_b get_b ready_b patched_b
  have second: "Reconcile fake_env (''ns'', ''nourl'') ([], []) =
       ((\<lparr>Requeue = True, RequeueAfter = 0\<rparr>, None), ([], [(Patch ?b ?b, None)]))"
    by (simp add: prod_eq_iff)
  let ?c = "fake_capi ''notoken''" and ?rc = "fake_rancher ''notoken-capi''"
  let ?tok = "\<lparr>Name = Status_ClusterName ?rc, Namespace = Namespace ?c, UID = [],
              Labels = Map.empty, Annotations = Map.empty, OwnerReferences = [],
              DeletionTimestamp = None,
              Spec_ClusterName = Status_ClusterName ?rc, Status_ManifestURL = []\<rparr>"
  have found_c: "RancherClient_Get fake_env (Namespace ?c, ToRancherName (Name ?c)) [] = Inr ?rc"
    by (simp add: fake_RancherClient_Get fake_capi_meta fake_ToRancherName)
  have key_c: "ObjectKeyFromObject ?rc = (Namespace ?c, ToRancherName (Name ?c))"
    by (simp add: ObjectKeyFromObject_def fake_rancher_def fake_capi_meta fake_ToRancherName)
  have live_c: "IsZero (DeletionTimestamp ?rc)"
    by (simp add: fake_rancher_def IsZero_def)
  have name_c: "Status_ClusterName ?rc = ''c-m-2''"
    by (simp add: fake_rancher_def)
  have agent_c: "\<not> Status_AgentDeployed ?rc"
    by (simp add: fake_rancher_def)
  have missing0: "RancherClient_Get_Token fake_env (''ns'', ''c-m-2'') []
                    = Inl (StatusError StatusReasonNotFound)"
    by (simp add: fake_env_def)
  then have missing_c: "RancherClient_Get_Token fake_env (Namespace ?c, Status_ClusterName ?rc) []
                    = Inl (StatusError StatusReasonNotFound)"
    by (simp add: fake_capi_meta name_c)
  have notfound: "IsNotFound (Some (StatusError StatusReasonNotFound))"
    by (simp add: IsNotFound_def)
  have tok: "?tok = fake_token (''ns'', ''c-m-2'')"
    by (simp add: fake_token_def fake_capi_meta name_c)
  have created_c: "RancherClient_Create_Token fake_env ?tok [] = (Inr ?tok, [])"
    by (simp add: fake_env_def)
  have url_c: "Status_ManifestURL ?tok = []"
    by simp
  have get_c: "Client_Get fake_env (''ns'', ''notoken'') [] = Inr ?c"
    by (rule fake_Client_Get)
  have ready_c: "Status_ControlPlaneReady ?c \<or> conditions_IsTrue ?c ControlPlaneReadyCondition"
    by (simp add: fake_capi_ready)
  have patched_c: "Client_Patch fake_env ?c ?c [] = (None, [])"
    by (simp add: fake_Client_Patch fake_capi_meta)
  have waiting_c: "Status_ClusterName ?rc \<noteq> [] \<and> \<not> Status_AgentDeployed ?rc
              \<and> (\<exists>e created w1.
                     RancherClient_Get_Token fake_env (Namespace ?c, Status_ClusterName ?rc) [] = Inl e
                     \<and> IsNotFound (Some e)
                     \<and> RancherClient_Create_Token fake_env ?tok [] = (Inr created, w1)
                     \<and> Status_ManifestURL created = []
                     \<and> ([], [] @ [(CreateToken ?tok, None)]) = (w1, [] @ [(CreateToken ?tok, None)]))"
    using name_c agent_c missing_c notfound created_c url_c by auto
  from waiting_states_requeue_immediately
         [OF found_c key_c live_c, of "([], [] @ [(CreateToken ?tok, None)])" "[]"
             "(''ns'', ''notoken'')" None "[]"]
       waiting_c get_c ready_c patched_c
  have "Reconcile fake_env (''ns'', ''notoken'') ([], []) =
       ((\<lparr>Requeue = True, RequeueAfter = 0\<rparr>, None),
        ([], [(CreateToken ?tok, None), (Patch ?c ?c, None)]))"
    by (simp add: prod_eq_iff)
  with tok have third: "Reconcile fake_env (''ns'', ''notoken'') ([], []) =
       ((\<lparr>Requeue = True, RequeueAfter = 0\<rparr>, None),
        ([], [(CreateToken (fake_token (''ns'', ''c-m-2'')), None), (Patch ?c ?c, None)]))"
    by simp
  from noname first name_b agent_b url_b second name_c agent_c missing0 third
  show ?thesis by simp
qed

theorem no_cluster_name_requeue_is_not_delayed:
  "RancherClient_Get fake_env (''ns'', ''noname-capi'') [] = Inr (fake_rancher ''noname-capi'')
   \<and> Status_ClusterName (fake_rancher ''noname-capi'') = []
   \<and> fst (Reconcile fake_env (''ns'', ''noname'') ([], [])) =
       (\<lparr>Requeue = True, RequeueAfter = 0\<rparr>, None)
   \<and> RequeueAfter (fst (fst (Reconcile fake_env (''ns'', ''noname'') ([], []))))
       \<noteq> defaultRequeueDuration"
proof -
  let ?a = "fake_capi ''noname''" and ?ra = "fake_rancher ''noname-capi''"
  have found0: "RancherClient_Get fake_env (''ns'', ''noname-capi'') [] = Inr ?ra"
    by (simp add: fake_RancherClient_Get)
  then have found: "RancherClient_Get fake_env (Namespace ?a, ToRancherName (Name ?a)) [] = Inr ?ra"
    by (simp add: fake_capi_meta fake_ToRancherName)
  have key: "ObjectKeyFromObject ?ra = (Namespace ?a, ToRancherName (Name ?a))"
    by (simp add: ObjectKeyFromObject_def fake_rancher_def fake_capi_meta fake_ToRancherName)
  have live: "IsZero (DeletionTimestamp ?ra)"
    by (simp add: fake_rancher_def IsZero_def)
  have noname: "Status_ClusterName ?ra = []"
    by (simp add: fake_rancher_def)
  have rec: "reconcile fake_env ?a ([], []) =
               ((\<lparr>Requeue = True, RequeueAfter = 0\<rparr>, None), ?a, ([], []))"
    using found key live noname by (rule reconcile_no_name)
  have get: "Client_Get fake_env (''ns'', ''noname'') [] = Inr ?a"
    by (rule fake_Client_Get)
  have ready: "Status_ControlPlaneReady ?a \<or> conditions_IsTrue ?a ControlPlaneReadyCondition"
    by (simp add: fake_capi_ready)
  have patched: "Client_Patch fake_env ?a ?a [] = (None, [])"
    by (simp add: fake_Client_Patch fake_capi_meta)
  from Reconcile_after_guard [OF get ready rec patched]
  have "fst (Reconcile fake_env (''ns'', ''noname'') ([], [])) =
          (\<lparr>Requeue = True, RequeueAfter = 0\<rparr>, None)"
    by (simp add: NewAggregate_def)
  with found0 noname show ?thesis
    by (simp add: defaultRequeueDuration_def Minute_def)
qed

section \<open>Properties of the manifest application\<close>

text \<open>One \<open>createObject\<close> issues one create; it returns no error when the create
  succeeded or met an object that exists already, and the wrapped error otherwise.\<close>

lemma createObject_cases:
  assumes "createObject c obj (w, tr) = (r, s')"
  shows "\<exists>out w'. c obj w = (out, w') \<and> s' = (w', tr @ [(RemoteCreate obj, out)])
    \<and> (out = None \<or> IsAlreadyExists out \<longrightarrow> r = None)
    \<and> (\<forall>e. out = Some e \<longrightarrow> \<not> IsAlreadyExists out \<longrightarrow>
           r = Some (Wrapped ''creating object in remote cluster'' e))"
  using assms
  by (cases "c obj w")
     (auto simp add: createObject_def do_RemoteCreate_def IsAlreadyExists_def
       split: if_splits option.splits)

text \<open>The loop over the objects of a document creates a prefix of them, each once and
  in order, and stops at the first create that fails for another reason than an object
  that exists already.\<close>

lemma createObjects_trace:
  "createObjects c items (w, tr) = (r, (w', tr')) \<Longrightarrow>
     \<exists>outs. length outs \<le> length items
       \<and> tr' = tr @ zip (map RemoteCreate items) outs
       \<and> (case r of
            None \<Rightarrow> length outs = length items
                      \<and> (\<forall>out\<in>set outs. out = None \<or> IsAlreadyExists out)
          | Some err \<Rightarrow> outs \<noteq> []
                      \<and> (\<forall>out\<in>set (butlast outs). out = None \<or> IsAlreadyExists out)
                      \<and> (\<exists>e. last outs = Some e \<and> \<not> IsAlreadyExists (Some e)
                              \<and> err = Wrapped ''creating object in remote cluster'' e))"
proof (induction items arbitrary: w tr)
  case Nil
  then show ?case by simp
next
  case (Cons obj items)
  obtain r1 s1 where step: "createObject c obj (w, tr) = (r1, s1)"
    by (cases "createObject c obj (w, tr)")
  from step obtain out w1 where
        s1: "s1 = (w1, tr @ [(RemoteCreate obj, out)])"
    and ok: "out = None \<or> IsAlreadyExists out \<Longrightarrow> r1 = None"
    and bad: "\<And>e. out = Some e \<Longrightarrow> \<not> IsAlreadyExists out \<Longrightarrow>
                r1 = Some (Wrapped ''creating object in remote cluster'' e)"
    using createObject_cases [OF step] by blast
  show ?case
  proof (cases "out = None \<or> IsAlreadyExists out")
    case True
    with ok have "r1 = None" by simp
    with Cons.prems step s1
    have rest: "createObjects c items (w1, tr @ [(RemoteCreate obj, out)]) = (r, (w', tr'))"
      by simp
    from Cons.IH [OF rest] obtain outs where
          len: "length outs \<le> length items"
      and tr': "tr' = (tr @ [(RemoteCreate obj, out)]) @ zip (map RemoteCreate items) outs"
      and res: "case r of
            None \<Rightarrow> length outs = length items
                      \<and> (\<forall>out\<in>set outs. out = None \<or> IsAlreadyExists out)
          | Some err \<Rightarrow> outs \<noteq> []
                      \<and> (\<forall>out\<in>set (butlast outs). out = None \<or> IsAlreadyExists out)
                      \<and> (\<exists>e. last outs = Some e \<and> \<not> IsAlreadyExists (Some e)
                              \<and> err = Wrapped ''creating object in remote cluster'' e)"
      by blast
    show ?thesis
    proof (intro exI [of _ "out # outs"] conjI)
      show "length (out # outs) \<le> length (obj # items)" using len by simp
      show "tr' = tr @ zip (map RemoteCreate (obj # items)) (out # outs)" using tr' by simp
      show "case r of
            None \<Rightarrow> length (out # outs) = length (obj # items)
                      \<and> (\<forall>out\<in>set (out # outs). out = None \<or> IsAlreadyExists out)
          | Some err \<Rightarrow> out # outs \<noteq> []
                      \<and> (\<forall>out\<in>set (butlast (out # outs)). out = None \<or> IsAlreadyExists out)
                      \<and> (\<exists>e. last (out # outs) = Some e \<and> \<not> IsAlreadyExists (Some e)
                              \<and> err = Wrapped ''creating object in remote cluster'' e)"
        using res True by (cases r) auto
    qed
  next
    case False
    then obtain e where e: "out = Some e" by (cases out) auto
    with bad False have r1: "r1 = Some (Wrapped ''creating object in remote cluster'' e)"
      by simp
    with Cons.prems step s1 have "r = r1" and "tr' = tr @ [(RemoteCreate obj, out)]"
      by simp_all
    with r1 e False show ?thesis
      by (intro exI [of _ "[out]"]) simp
  qed
qed

text \<open>Reading a stream is reading its first part and then, if that went well, the rest
  from the state the first part left.\<close>

lemma readManifests_append:
  "readManifests env c (pre @ post) s =
     (case readManifests env c pre s of
        (None, s') \<Rightarrow> readManifests env c post s'
      | (Some err, s') \<Rightarrow> (Some err, s'))"
  by (induction env c pre s rule: readManifests.induct)
     (auto split: prod.splits option.splits)

text \<open>Creating the objects of two documents one after the other is creating the
  objects of the two lists in a row; so a stream whose documents all parse is applied
  as the one list of its objects.\<close>

lemma createObjects_append:
  "createObjects c (xs @ ys) s =
     (case createObjects c xs s of
        (Some err, s') \<Rightarrow> (Some err, s')
      | (None, s') \<Rightarrow> createObjects c ys s')"
  by (induction xs arbitrary: s) (auto split: prod.splits option.splits)

lemma readManifests_all_parsed:
  "map (ToUnstructured env) raws = map Inr itemss \<Longrightarrow>
     readManifests env c (map ReadDocument raws) s = createObjects c (concat itemss) s"
proof (induction raws arbitrary: itemss s)
  case Nil
  then show ?case by simp
next
  case (Cons raw raws)
  then obtain items rest where itemss: "itemss = items # rest"
    and raw: "ToUnstructured env raw = Inr items"
    and raws: "map (ToUnstructured env) raws = map Inr rest"
    by (cases itemss) auto
  from Cons.IH [OF raws] raw show ?case
    by (simp add: itemss createRawManifest_def createObjects_append
        split: prod.splits option.splits)
qed

text \<open>
  Claim C5: applying a manifest whose documents \<open>raws\<close> all parse, to the lists of
  objects \<open>itemss\<close>, issues creates for a prefix of the objects of the manifest, the
  objects of the documents in their order, one create for each object. When no error is
  returned the prefix is all the objects and every create either succeeded or answered
  that the object exists already: such an answer is a success and the next object
  follows, across documents too. When an error is returned, the last create issued
  failed for another reason, nothing was created after it, in that document or in a
  later one, and the error returned is that failure, wrapped.
\<close>

theorem createImportManifest_one_create_per_object:
  assumes reads: "YAMLReader env input = map ReadDocument raws"
      and parsed: "map (ToUnstructured env) raws = map Inr itemss"
      and run: "createImportManifest env remoteClient input (w, tr) = (r, (w', tr'))"
  shows "\<exists>outs. length outs \<le> length (concat itemss)
       \<and> tr' = tr @ zip (map RemoteCreate (concat itemss)) outs
       \<and> (case r of
            None \<Rightarrow> length outs = length (concat itemss)
                      \<and> (\<forall>out\<in>set outs. out = None \<or> IsAlreadyExists out)
          | Some err \<Rightarrow> outs \<noteq> []
                      \<and> (\<forall>out\<in>set (butlast outs). out = None \<or> IsAlreadyExists out)
                      \<and> (\<exists>e. last outs = Some e \<and> \<not> IsAlreadyExists (Some e)
                              \<and> err = Wrapped ''creating object in remote cluster'' e))"
proof -
  from reads run readManifests_all_parsed [OF parsed]
  have "createObjects remoteClient (concat itemss) (w, tr) = (r, (w', tr'))"
    by (simp add: createImportManifest_def)
  then show ?thesis by (rule createObjects_trace)
qed

theorem createImportManifest_one_create_per_object_witness:
  "YAMLReader fake_env ''ab-cd'' = map ReadDocument [''ab'', ''cd'']
   \<and> map (ToUnstructured fake_env) [''ab'', ''cd'']
       = map Inr [[fake_object ''a'', fake_object ''b''], [fake_object ''c'', fake_object ''d'']]
   \<and> createImportManifest fake_env fake_remote ''ab-cd'' ([''b''], []) =
       (None, ([''b'', ''a'', ''c'', ''d''],
               [(RemoteCreate (fake_object ''a''), None),
                (RemoteCreate (fake_object ''b''), Some (StatusError StatusReasonAlreadyExists)),
                (RemoteCreate (fake_object ''c''), None),
                (RemoteCreate (fake_object ''d''), None)]))
   \<and> (\<exists>outs. length outs = 4
         \<and> [(RemoteCreate (fake_object ''a''), None),
             (RemoteCreate (fake_object ''b''), Some (StatusError StatusReasonAlreadyExists)),
             (RemoteCreate (fake_object ''c''), None),
             (RemoteCreate (fake_object ''d''), None)]
            = zip [RemoteCreate (fake_object ''a''), RemoteCreate (fake_object ''b''),
                   RemoteCreate (fake_object ''c''), RemoteCreate (fake_object ''d'')] outs
         \<and> (\<forall>out\<in>set outs. out = None \<or> IsAlreadyExists out))
   \<and> YAMLReader fake_env ''ab-xd'' = map ReadDocument [''ab'', ''xd'']
   \<and> map (ToUnstructured fake_env) [''ab'', ''xd'']
       = map Inr [[fake_object ''a'', fake_object ''b''], [fake_object ''x'', fake_object ''d'']]
   \<and> createImportManifest fake_env fake_remote ''ab-xd'' ([''b''], []) =
       (Some (Wrapped ''creating object in remote cluster'' (StatusError StatusReasonForbidden)),
        ([''b'', ''a''],
         [(RemoteCreate (fake_object ''a''), None),
          (RemoteCreate (fake_object ''b''), Some (StatusError StatusReasonAlreadyExists)),
          (RemoteCreate (fake_object ''x''), Some (StatusError StatusReasonForbidden))]))
   \<and> (\<exists>outs. length outs \<le> 4
         \<and> [(RemoteCreate (fake_object ''a''), None),
             (RemoteCreate (fake_object ''b''), Some (StatusError StatusReasonAlreadyExists)),
             (RemoteCreate (fake_object ''x''), Some (StatusError StatusReasonForbidden))]
            = zip [RemoteCreate (fake_object ''a''), RemoteCreate (fake_object ''b''),
                   RemoteCreate (fake_object ''x''), RemoteCreate (fake_object ''d'')] outs
         \<and> outs \<noteq> []
         \<and> (\<exists>e. last outs = Some e \<and> \<not> IsAlreadyExists (Some e)))"
proof -
  have four: "(4::nat) = Suc (Suc (Suc (Suc 0)))" by simp
  have reads1: "YAMLReader fake_env ''ab-cd'' = map ReadDocument [''ab'', ''cd'']"
    by (simp add: fake_env_def)
  have parsed1: "map (ToUnstructured fake_env) [''ab'', ''cd'']
       = map Inr [[fake_object ''a'', fake_object ''b''], [fake_object ''c'', fake_object ''d'']]"
    by (simp add: fake_env_def)
  have run1: "createImportManifest fake_env fake_remote ''ab-cd'' ([''b''], []) =
       (None, ([''b'', ''a'', ''c'', ''d''],
               [(RemoteCreate (fake_object ''a''), None),
                (RemoteCreate (fake_object ''b''), Some (StatusError StatusReasonAlreadyExists)),
                (RemoteCreate (fake_object ''c''), None),
                (RemoteCreate (fake_object ''d''), None)]))"
    using parsed1
    by (simp add: createImportManifest_def reads1 createRawManifest_def createObject_def
        do_RemoteCreate_def fake_remote_def fake_object_def IsAlreadyExists_def)
  from createImportManifest_one_create_per_object [OF reads1 parsed1 run1]
  have first: "\<exists>outs. length outs = 4
         \<and> [(RemoteCreate (fake_object ''a''), None),
             (RemoteCreate (fake_object ''b''), Some (StatusError StatusReasonAlreadyExists)),
             (RemoteCreate (fake_object ''c''), None),
             (RemoteCreate (fake_object ''d''), None)]
            = zip [RemoteCreate (fake_object ''a''), RemoteCreate (fake_object ''b''),
                   RemoteCreate (fake_object ''c''), RemoteCreate (fake_object ''d'')] outs
         \<and> (\<forall>out\<in>set outs. out = None \<or> IsAlreadyExists out)"
    by (auto simp add: four)
  have reads2: "YAMLReader fake_env ''ab-xd'' = map ReadDocument [''ab'', ''xd'']"
    by (simp add: fake_env_def)
  have parsed2: "map (ToUnstructured fake_env) [''ab'', ''xd'']
       = map Inr [[fake_object ''a'', fake_object ''b''], [fake_object ''x'', fake_object ''d'']]"
    by (simp add: fake_env_def)
  have run2: "createImportManifest fake_env fake_remote ''ab-xd'' ([''b''], []) =
       (Some (Wrapped ''creating object in remote cluster'' (StatusError StatusReasonForbidden)),
        ([''b'', ''a''],
         [(RemoteCreate (fake_object ''a''), None),
          (RemoteCreate (fake_object ''b''), Some (StatusError StatusReasonAlreadyExists)),
          (RemoteCreate (fake_object ''x''), Some (StatusError StatusReasonForbidden))]))"
    using parsed2
    by (simp add: createImportManifest_def reads2 createRawManifest_def createObject_def
        do_RemoteCreate_def fake_remote_def fake_object_def IsAlreadyExists_def)
  from createImportManifest_one_create_per_object [OF reads2 parsed2 run2]
  have second: "\<exists>outs. length outs \<le> 4
         \<and> [(RemoteCreate (fake_object ''a''), None),
             (RemoteCreate (fake_object ''b''), Some (StatusError StatusReasonAlreadyExists)),
             (RemoteCreate (fake_object ''x''), Some (StatusError StatusReasonForbidden))]
            = zip [RemoteCreate (fake_object ''a''), RemoteCreate (fake_object ''b''),
                   RemoteCreate (fake_object ''x''), RemoteCreate (fake_object ''d'')] outs
         \<and> outs \<noteq> []
         \<and> (\<exists>e. last outs = Some e \<and> \<not> IsAlreadyExists (Some e))"
    by (auto simp add: four)
  from reads1 parsed1 run1 first reads2 parsed2 run2 second show ?thesis by blast
qed

text \<open>
  Claim C6: when the read of the manifest reaches a document that does not parse,
  \<open>createImportManifest\<close> stops there. The state it leaves, the world and the record
  of writes, is the state the documents before left: no create is issued for the
  document that failed or for one after it, and nothing created before is undone, the
  record of writes only growing. The error returned is the parse error, wrapped, when
  the documents before were applied without error (and the error of the first of them
  that failed otherwise).
\<close>

theorem parse_failure_aborts_without_rollback:
  assumes reads: "YAMLReader env input = pre @ ReadDocument bad # post"
      and bad: "ToUnstructured env bad = Inl e"
  shows "snd (createImportManifest env remoteClient input s)
           = snd (readManifests env remoteClient pre s)
         \<and> fst (createImportManifest env remoteClient input s)
           = (case fst (readManifests env remoteClient pre s) of
                None \<Rightarrow> Some (Wrapped ''error unmarshalling bytes or empty object passed'' e)
              | Some err \<Rightarrow> Some err)
         \<and> (\<exists>new. snd (snd (createImportManifest env remoteClient input s)) = snd s @ new)"
proof -
  obtain r1 w1 tr1 where pre: "readManifests env remoteClient pre s = (r1, (w1, tr1))"
    by (metis surj_pair)
  have whole: "createImportManifest env remoteClient input s =
                 (case r1 of
                    None \<Rightarrow> Some (Wrapped ''error unmarshalling bytes or empty object passed'' e)
                  | Some err \<Rightarrow> Some err, (w1, tr1))"
    using reads bad pre
    by (simp add: createImportManifest_def readManifests_append createRawManifest_def
        split: option.splits)
  obtain w tr where s: "s = (w, tr)" by (cases s)
  from pre s readManifests_no_cluster [of env remoteClient pre w tr r1 w1 tr1]
  have "\<exists>new. tr1 = snd s @ new" by auto
  with whole pre show ?thesis by simp
qed

theorem parse_failure_aborts_without_rollback_witness:
  "YAMLReader fake_env ''ab-c:-d'' = [ReadDocument ''ab''] @ ReadDocument ''c:'' # [ReadDocument ''d'']
   \<and> ToUnstructured fake_env ''c:'' = Inl (OtherError ''invalid yaml'')
   \<and> readManifests fake_env fake_remote [ReadDocument ''ab''] ([''b''], []) =
       (None, ([''b'', ''a''],
               [(RemoteCreate (fake_object ''a''), None),
                (RemoteCreate (fake_object ''b''), Some (StatusError StatusReasonAlreadyExists))]))
   \<and> createImportManifest fake_env fake_remote ''ab-c:-d'' ([''b''], []) =
       (Some (Wrapped ''error unmarshalling bytes or empty object passed''
                (OtherError ''invalid yaml'')),
        ([''b'', ''a''],
         [(RemoteCreate (fake_object ''a''), None),
          (RemoteCreate (fake_object ''b''), Some (StatusError StatusReasonAlreadyExists))]))"
proof -
  have reads: "YAMLReader fake_env ''ab-c:-d'' =
                 [ReadDocument ''ab''] @ ReadDocument ''c:'' # [ReadDocument ''d'']"
    by (simp add: fake_env_def)
  have bad: "ToUnstructured fake_env ''c:'' = Inl (OtherError ''invalid yaml'')"
    by (simp add: fake_env_def)
  have parsed: "ToUnstructured fake_env ''ab'' = Inr [fake_object ''a'', fake_object ''b'']"
    by (simp add: fake_env_def)
  have pre: "readManifests fake_env fake_remote [ReadDocument ''ab''] ([''b''], []) =
       (None, ([''b'', ''a''],
               [(RemoteCreate (fake_object ''a''), None),
                (RemoteCreate (fake_object ''b''), Some (StatusError StatusReasonAlreadyExists))]))"
    by (simp add: createRawManifest_def parsed createObject_def do_RemoteCreate_def
        fake_remote_def fake_object_def IsAlreadyExists_def)
  from parse_failure_aborts_without_rollback
         [OF reads bad, of fake_remote "([''b''], [])"] pre
  have "createImportManifest fake_env fake_remote ''ab-c:-d'' ([''b''], []) =
       (Some (Wrapped ''error unmarshalling bytes or empty object passed''
                (OtherError ''invalid yaml'')),
        ([''b'', ''a''],
         [(RemoteCreate (fake_object ''a''), None),
          (RemoteCreate (fake_object ''b''), Some (StatusError StatusReasonAlreadyExists))]))"
    by (simp add: prod_eq_iff)
  with reads bad pre show ?thesis by blast
qed


end
